theory Spec2Isabelle
  imports Complex_Main "HOL-Library.Sublist" "HOL-Library.AList" "HOL-Library.Log_Nat"
begin

section \<open>Numbers and text\<close>

text \<open>
  Scores are Python floats in the source: IEEE 754 binary64 numbers. Every finite float
  is a rational number, so a score is a \<open>rat\<close>. A decimal constant of the source
  (0.35, 0.3, 0.92, ...) and a score stored in a record are written as their decimal
  value; the float they stand for is the nearest binary64 number, \<open>fl64\<close> of that
  value. Python's \<^verbatim>\<open>round(x, n)\<close> rounds the exact value of the float \<open>x\<close> to
  \<open>n\<close> decimals, ties to the even neighbour, and returns the float nearest to that
  decimal, which is again written as the decimal.
\<close>

definition round_half_even :: "rat \<Rightarrow> int" where
  "round_half_even x =
     (let f = \<lfloor>x\<rfloor>; d = x - of_int f
      in if d < 1 / 2 then f else if 1 / 2 < d then f + 1 else if even f then f else f + 1)"

definition py_round :: "rat \<Rightarrow> nat \<Rightarrow> rat" where
  "py_round x n = of_int (round_half_even (x * 10 ^ n)) / 10 ^ n"

text \<open>
  Float arithmetic rounds the exact result of every operation to the nearest binary64
  number, ties to the even significand. \<open>pow2 e\<close> is \<open>2\<close> to the power \<open>e\<close>, and
  \<open>expo x\<close> is the binary exponent of a positive \<open>x\<close>: the \<open>e\<close> with
  \<open>pow2 e \<le> x < pow2 (e + 1)\<close>. A binary64 number has 53 significant bits, so near
  \<open>x\<close> the representable numbers are the multiples of \<open>pow2 (expo x - 52)\<close>; below
  the smallest normal number \<open>pow2 (- 1022)\<close> the spacing stays \<open>pow2 (- 1074)\<close>
  (gradual underflow). Overflow to infinity is not modelled: it needs a magnitude of
  \<open>pow2 1024\<close>, and no infinity or NaN is a \<open>rat\<close>.

  The aggregator and the consistency check of the critique engine, whose outcome depends
  on the rounding of the floats, round every sum, product, difference and quotient with
  \<open>fl64\<close>. A comparison of a stored score with a decimal constant is made on the
  decimal values: \<open>fl64\<close> is monotone, and it keeps decimals of up to 15 significant
  digits apart, so the floats compare in the same way. The remaining sums (the penalties
  of the signal analyzer, the mean of the proposed adjustments, the adjusted score of the
  orchestrator) add decimals of two or three digits and are read after rounding to two
  or three decimals or compared with 0.75; they are kept exact.
\<close>

definition pow2 :: "int \<Rightarrow> rat" where
  "pow2 e = (if 0 \<le> e then 2 ^ nat e else 1 / 2 ^ nat (- e))"

definition expo :: "rat \<Rightarrow> int" where
  "expo x = (if 1 \<le> x then bitlen \<lfloor>x\<rfloor> - 1 else - bitlen (\<lceil>1 / x\<rceil> - 1))"

definition quantum :: "rat \<Rightarrow> rat" where
  "quantum x = pow2 (max (expo x) (- 1022) - 52)"

definition fl_pos :: "rat \<Rightarrow> rat" where
  "fl_pos x = of_int (round_half_even (x / quantum x)) * quantum x"

definition fl64 :: "rat \<Rightarrow> rat" where
  "fl64 x = (if x = 0 then 0 else if x < 0 then - fl_pos (- x) else fl_pos x)"

text \<open>
  Text is a \<open>string\<close> holding the UTF-8 bytes of the Python \<^verbatim>\<open>str\<close>. The
  Hebrew tags of the source are written as their bytes. \<open>str_contains hay needle\<close> is
  Python's \<^verbatim>\<open>needle in hay\<close>; \<open>str_lower\<close> is \<^verbatim>\<open>str.lower()\<close> on the ASCII
  letters. Python also lowers letters outside ASCII, which cannot change whether one of
  the needles of the source (the tool names, \<^verbatim>\<open>clone_detection\<close>) occurs.
\<close>

primrec str_contains :: "string \<Rightarrow> string \<Rightarrow> bool" where
  "str_contains [] needle = (needle = [])"
| "str_contains (c # cs) needle = (prefix needle (c # cs) \<or> str_contains cs needle)"

definition lower_char :: "char \<Rightarrow> char" where
  "lower_char c =
     (let n = (of_char c :: nat) in if 65 \<le> n \<and> n \<le> 90 then char_of (n + 32) else c)"

definition str_lower :: "string \<Rightarrow> string" where
  "str_lower s = map lower_char s"

fun str_join :: "string \<Rightarrow> string list \<Rightarrow> string" where
  "str_join sep [] = []"
| "str_join sep [s] = s"
| "str_join sep (s # t # ts) = s @ sep @ str_join sep (t # ts)"

section \<open>Data model\<close>

text \<open>
  An anomaly is the dictionary built by \<^verbatim>\<open>_anomaly\<close> (or sent by an external
  provider). The decisions of the pipeline read its \<^verbatim>\<open>type\<close> and
  \<^verbatim>\<open>severity\<close> only; the description and the location are display payload and
  are left out. A key that is missing reads as the empty string, which is what
  \<^verbatim>\<open>a.get("type", "")\<close> returns and which equals neither "high" nor "medium".
\<close>

record anomaly =
  atype :: string
  severity :: string

text \<open>The opaque \<^verbatim>\<open>findings\<close> payload: JSON values.\<close>

datatype fval =
    FNull
  | FBool bool
  | FNum rat
  | FStr string
  | FList "fval list"
  | FObj "(string \<times> fval) list"

fun truthy :: "fval \<Rightarrow> bool" where
  "truthy FNull = False"
| "truthy (FBool b) = b"
| "truthy (FNum x) = (x \<noteq> 0)"
| "truthy (FStr s) = (s \<noteq> [])"
| "truthy (FList xs) = (xs \<noteq> [])"
| "truthy (FObj kvs) = (kvs \<noteq> [])"

text \<open>
  An opinion record is the dictionary every provider returns (\<^verbatim>\<open>_result\<close> in the
  forensic agent, the literal dictionaries of the vision agents): all four keys are
  always present and \<^verbatim>\<open>anomalies\<close> is always \<^verbatim>\<open>{"items": [...]}\<close>.
\<close>

record opinion =
  agent_type :: string
  confidence_score :: rat
  findings :: "(string \<times> fval) list"
  anomalies :: "anomaly list"

datatype verdict = Authentic | Forged | Inconclusive

record anomaly_summary =
  total :: int
  high :: int
  medium :: int
  low :: int

text \<open>
  The reasoning text is a sequence of sentences, each a fixed Hebrew template filled
  with numbers or names. A sentence is modelled by its template and its arguments:
  \<open>NoFindings\<close> is "no findings were received from the agents", \<open>RunSummary n s\<close>
  reports the number of opinions and the combined score, \<open>AnomalyCounts t h m\<close> the
  anomaly counts, \<open>LowConfidence names\<close> the sources below 0.6, \<open>AIGenerated tool\<close>
  the suspected generator, and \<open>RecommendHITL\<close> recommends a human expert.
\<close>

datatype reasoning_part =
    NoFindings
  | RunSummary nat rat
  | AnomalyCounts nat nat nat
  | LowConfidence "string list"
  | AIGenerated fval
  | RecommendHITL

record cross_reference =
  combined_score :: rat
  final_verdict :: verdict
  reasoning :: "reasoning_part list"
  anomaly_summary :: "anomaly_summary option"

section \<open>Cross-reference aggregator\<close>

definition WEIGHTS :: "(string \<times> rat) list" where
  "WEIGHTS =
     [(''forensic_technical'', 35 / 100), (''physical'', 25 / 100),
      (''contextual'', 20 / 100), (''ai_generation'', 20 / 100)]"

definition CONFIDENCE_THRESHOLD :: rat where
  "CONFIDENCE_THRESHOLD = 75 / 100"

text \<open>\<^verbatim>\<open>self.WEIGHTS.get(agent_type, 0.1)\<close>\<close>

definition weight_of :: "(string \<times> rat) list \<Rightarrow> string \<Rightarrow> rat" where
  "weight_of tbl k = (case map_of tbl k of Some w \<Rightarrow> w | None \<Rightarrow> 1 / 10)"

text \<open>
  The first loop: the pair is (\<^verbatim>\<open>weighted_sum\<close>, \<^verbatim>\<open>total_weight\<close>), two
  floats. \<^verbatim>\<open>weighted_sum += score * weight\<close> rounds the product and then the sum;
  \<^verbatim>\<open>total_weight += weight\<close> rounds the sum.
\<close>

fun weigh :: "(string \<times> rat) list \<Rightarrow> opinion list \<Rightarrow> rat \<times> rat \<Rightarrow> rat \<times> rat" where
  "weigh tbl [] acc = acc"
| "weigh tbl (r # rs) (ws, tw) =
     (let score = fl64 (confidence_score r);
          weight = fl64 (weight_of tbl (agent_type r))
      in weigh tbl rs (fl64 (ws + fl64 (score * weight)), fl64 (tw + weight)))"

definition all_anomalies :: "opinion list \<Rightarrow> anomaly list" where
  "all_anomalies rs = concat (map anomalies rs)"

definition count_severity :: "string \<Rightarrow> anomaly list \<Rightarrow> nat" where
  "count_severity s as = length (filter (\<lambda>a. severity a = s) as)"

text \<open>\<^verbatim>\<open>"\<dots>"\<close> (Hebrew for "unknown"), the default of \<^verbatim>\<open>likely_tool\<close>.\<close>

definition unknown_tool :: string where
  "unknown_tool =
     [CHR 0xD7, CHR 0x9C, CHR 0xD7, CHR 0x90, CHR 0x20, CHR 0xD7, CHR 0x99, CHR 0xD7,
      CHR 0x93, CHR 0xD7, CHR 0x95, CHR 0xD7, CHR 0xA2]"

definition ai_parts :: "opinion list \<Rightarrow> reasoning_part list" where
  "ai_parts rs =
     concat (map (\<lambda>r.
       if agent_type r = ''ai_generation'' then
         (case map_of (findings r) ''is_ai_generated'' of
            Some b \<Rightarrow>
              if truthy b then
                [AIGenerated (case map_of (findings r) ''likely_tool'' of
                                Some t \<Rightarrow> t | None \<Rightarrow> FStr unknown_tool)]
              else []
          | None \<Rightarrow> [])
       else []) rs)"

text \<open>
  \<^verbatim>\<open>CrossReferenceEngine.analyze\<close>, with the weight table (the class attribute
  \<^verbatim>\<open>WEIGHTS\<close>) as a parameter. The quotient
  \<^verbatim>\<open>weighted_sum / total_weight\<close> is a float, rounded by \<open>fl64\<close>, and
  \<^verbatim>\<open>round(\<dots>, 3)\<close> rounds that float to three decimals.
\<close>

definition analyze_with :: "(string \<times> rat) list \<Rightarrow> opinion list \<Rightarrow> cross_reference" where
  "analyze_with tbl agent_results =
     (if agent_results = [] then
        \<lparr>combined_score = 1 / 2, final_verdict = Inconclusive,
         reasoning = [NoFindings], anomaly_summary = None\<rparr>
      else
        let (weighted_sum, total_weight) = weigh tbl agent_results (0, 0);
            score = (if 0 < total_weight
                     then py_round (fl64 (weighted_sum / total_weight)) 3
                     else 1 / 2);
            items = all_anomalies agent_results;
            high_count = count_severity ''high'' items;
            medium_count = count_severity ''medium'' items;
            total_count = length items;
            v = (if 3 \<le> high_count \<or> (2 \<le> high_count \<and> score < 1 / 2) then Forged
                 else if CONFIDENCE_THRESHOLD \<le> score \<and> high_count = 0 then Authentic
                 else Inconclusive);
            low_confidence_agents =
              map agent_type (filter (\<lambda>r. confidence_score r < 6 / 10) agent_results)
        in \<lparr>combined_score = score, final_verdict = v,
            reasoning =
              [RunSummary (length agent_results) score,
               AnomalyCounts total_count high_count medium_count]
              @ (if low_confidence_agents \<noteq> [] then [LowConfidence low_confidence_agents]
                 else [])
              @ ai_parts agent_results
              @ (if v = Inconclusive then [RecommendHITL] else []),
            anomaly_summary =
              Some \<lparr>total = int total_count, high = int high_count,
                    medium = int medium_count,
                    low = int total_count - int high_count - int medium_count\<rparr>\<rparr>)"

definition cross_reference_analyze :: "opinion list \<Rightarrow> cross_reference" where
  "cross_reference_analyze = analyze_with WEIGHTS"

section \<open>Adversarial critique engine\<close>

text \<open>
  What the code observes of the uploaded bytes. \<^verbatim>\<open>PIL\<close> and \<^verbatim>\<open>numpy\<close>
  are libraries outside the repository, so a file is modelled by the results of the
  library calls the code makes on it: its length, the first 16 hex digits of its SHA-256,
  and the outcome of \<^verbatim>\<open>Image.open\<close> (\<open>None\<close> when it raises). An opened image
  is the record of what the code reads from it; the reads that run library code on the
  file's content (\<^verbatim>\<open>_getexif()\<close>, the resave measurement) may raise.
\<close>

datatype error = PILError

datatype 'a reading = Raises | Reads 'a

text \<open>
  The resave (ELA) measurement: either the message of the exception raised inside the
  \<^verbatim>\<open>try\<close> block, or \<^verbatim>\<open>np.mean\<close>, \<^verbatim>\<open>np.max\<close> and
  \<^verbatim>\<open>np.std\<close> of the difference map with the means of the 16 grid regions in
  row-major order.
\<close>

datatype ela_obs =
    ElaError string
  | ElaStats rat rat rat "rat list"

record image =
  img_format :: "string option"
  img_width :: nat
  img_height :: nat
  img_mode :: string
  getexif :: "(string \<times> string) list reading"
  q_tables :: nat
  q_std :: "rat option"
  ela_measure :: ela_obs

record media_file =
  file_len :: nat
  sha256_16 :: string
  opened :: "image option"

record challenge_rec =
  ctype :: string
  target_agent :: "string option"
  target_anomaly :: "string option"
  cseverity :: string

record blind_spot =
  agent :: string
  risk :: string

text \<open>
  Recommendations are fixed sentences: check for cropping, bring in a human expert,
  widen the agent set, and the trend sentence with the average challenge count.
\<close>

datatype recommendation = CheckCropping | EscalateHITL | ExpandAgents | OverSensitive rat

datatype threat = Low | Medium | High

datatype summary_part = FoundCounts nat nat | ThreatIs threat | Recommended nat

record log_entry =
  timestamp :: string
  file_hash :: string
  challenges_count :: nat
  blind_spots_count :: nat
  logged_adjustment :: rat
  verdict_challenged :: bool

record critique =
  critic_type :: string
  challenges :: "challenge_rec list"
  blind_spots :: "blind_spot list"
  recommendations :: "recommendation list"
  confidence_adjustment :: rat
  threat_level :: threat
  learning_log_size :: nat
  summary :: "summary_part list"

text \<open>The Hebrew tag of the missing-metadata anomaly.\<close>

definition metadata_tag :: string where
  "metadata_tag =
     [CHR 0xD7, CHR 0x9E, CHR 0xD7, CHR 0x98, CHR 0xD7, CHR 0x90, CHR 0xD7, CHR 0x93,
      CHR 0xD7, CHR 0x98, CHR 0xD7, CHR 0x94]"

definition check_false_positives ::
  "opinion list \<Rightarrow> media_file \<Rightarrow> challenge_rec list \<times> rat option" where
  "check_false_positives results f =
     (case find (\<lambda>r. agent_type r = ''forensic_technical'') results of
        None \<Rightarrow> ([], None)
      | Some forensic \<Rightarrow>
          let items = anomalies forensic;
              ela_anomalies = filter (\<lambda>a. str_contains (atype a) ''ELA'') items;
              (ela_challenges, adjustment) =
                (if ela_anomalies \<noteq> [] then
                   (case opened f of
                      None \<Rightarrow> ([], None)
                    | Some img \<Rightarrow>
                        if img_format img = Some ''JPEG'' then
                          let pixels = img_width img * img_height img;
                              bpp = (if 0 < pixels
                                     then (of_nat (file_len f) :: rat) / of_nat pixels else 0)
                          in if bpp < 3 / 10 then
                               ([\<lparr>ctype = ''false_positive_risk'',
                                  target_agent = Some ''forensic_technical'',
                                  target_anomaly = Some ''ELA'',
                                  cseverity = ''medium''\<rparr>], Some (5 / 100))
                             else ([], None)
                        else ([], None))
                 else ([], None));
              meta_anomalies = filter (\<lambda>a. str_contains (atype a) metadata_tag) items
          in (ela_challenges
              @ (if meta_anomalies \<noteq> [] then
                   [\<lparr>ctype = ''false_positive_risk'',
                     target_agent = Some ''forensic_technical'',
                     target_anomaly = Some ''metadata'',
                     cseverity = ''low''\<rparr>]
                 else []),
              adjustment))"

definition check_false_negatives :: "opinion list \<Rightarrow> blind_spot list" where
  "check_false_negatives results =
     (let quiet = map (\<lambda>r. \<lparr>agent = agent_type r, risk = ''false_negative''\<rparr>)
                    (filter (\<lambda>r. anomalies r = [] \<and> 8 / 10 < confidence_score r) results);
          agent_types = map agent_type results;
          all_anomaly_types = concat (map (\<lambda>r. map atype (anomalies r)) results)
      in quiet
         @ (if str_contains (str_lower (str_join '' '' all_anomaly_types)) ''clone_detection''
            then []
            else [\<lparr>agent = ''system'', risk = ''missing_capability''\<rparr>])
         @ (if ''ai_generation'' \<in> set agent_types then []
            else [\<lparr>agent = ''system'', risk = ''missing_agent''\<rparr>]))"

text \<open>
  The dictionary comprehension \<^verbatim>\<open>{r["agent_type"]: r.get("confidence_score", 0.5)}\<close>:
  a later opinion of the same kind replaces the value and keeps the key's position.

  In \<^verbatim>\<open>_check_cross_consistency\<close> the gap
  \<^verbatim>\<open>max_s - min_s\<close> and the difference of the forensic and the contextual score
  are differences of two floats, rounded by \<open>fl64\<close>, and they are compared with the
  floats 0.3 and 0.25. The largest float is the float of the largest decimal, because
  \<open>fl64\<close> is monotone. So 0.9 and 0.6 are a gap above 0.3 in the code and in the model
  (the float difference is 0.30000000000000004), where the decimals are not.
\<close>

definition scores_dict :: "opinion list \<Rightarrow> (string \<times> rat) list" where
  "scores_dict results =
     fold (\<lambda>r d. AList.update (agent_type r) (confidence_score r) d) results []"

definition score_or_half :: "(string \<times> rat) list \<Rightarrow> string \<Rightarrow> rat" where
  "score_or_half scores k = (case map_of scores k of Some s \<Rightarrow> s | None \<Rightarrow> 1 / 2)"

definition check_cross_consistency ::
  "opinion list \<Rightarrow> challenge_rec list \<times> rat option" where
  "check_cross_consistency results =
     (let scores = scores_dict results;
          (gap_challenges, adjustment) =
            (case map snd scores of
               v # w # vs \<Rightarrow>
                 let max_s = fold max (w # vs) v;
                     min_s = fold min (w # vs) v;
                     gap = fl64 (fl64 max_s - fl64 min_s)
                 in if fl64 (3 / 10) < gap then
                      ([\<lparr>ctype = ''consistency_gap'', target_agent = None,
                         target_anomaly = None, cseverity = ''high''\<rparr>], Some (- (3 / 100)))
                    else ([], None)
             | _ \<Rightarrow> ([], None));
          forensic_score = score_or_half scores ''forensic_technical'';
          contextual_score = score_or_half scores ''contextual''
      in (gap_challenges
          @ (if fl64 (25 / 100)
                  < \<bar>fl64 (fl64 forensic_score - fl64 contextual_score)\<bar> then
               [\<lparr>ctype = ''cross_disagreement'', target_agent = None,
                 target_anomaly = None, cseverity = ''medium''\<rparr>]
             else []),
          adjustment))"

definition check_edge_cases :: "media_file \<Rightarrow> challenge_rec list \<times> recommendation list" where
  "check_edge_cases f =
     (case opened f of
        None \<Rightarrow>
          ([\<lparr>ctype = ''parse_error'', target_agent = None, target_anomaly = None,
             cseverity = ''low''\<rparr>], [])
      | Some img \<Rightarrow>
          ((if img_width img < 200 \<or> img_height img < 200 then
              [\<lparr>ctype = ''low_resolution'', target_agent = None, target_anomaly = None,
                cseverity = ''high''\<rparr>]
            else [])
           @ (if img_mode img = ''L'' \<or> img_mode img = ''LA'' then
                [\<lparr>ctype = ''grayscale'', target_agent = None, target_anomaly = None,
                  cseverity = ''medium''\<rparr>]
              else []),
           (if 5000 < img_width img \<or> 5000 < img_height img then [CheckCropping] else [])))"

definition challenge_verdict :: "cross_reference \<Rightarrow> opinion list \<Rightarrow> challenge_rec list" where
  "challenge_verdict cross_ref results =
     (let v = final_verdict cross_ref;
          score = combined_score cross_ref;
          total_high =
            length (concat (map (\<lambda>r. filter (\<lambda>a. severity a = ''high'') (anomalies r)) results))
      in (if v = Authentic \<and> 0 < total_high then
            [\<lparr>ctype = ''verdict_challenge'', target_agent = None, target_anomaly = None,
              cseverity = ''high''\<rparr>]
          else [])
         @ (if v = Forged \<and> 7 / 10 < score then
              [\<lparr>ctype = ''verdict_challenge'', target_agent = None, target_anomaly = None,
                cseverity = ''medium''\<rparr>]
            else []))"

text \<open>\<^verbatim>\<open>_generate_recommendations\<close> reads the log as it is before this run's entry.\<close>

definition generate_recommendations ::
  "log_entry list \<Rightarrow> challenge_rec list \<Rightarrow> blind_spot list \<Rightarrow> recommendation list" where
  "generate_recommendations learning_log chs bss =
     (if filter (\<lambda>c. cseverity c = ''high'') chs \<noteq> [] then [EscalateHITL] else [])
     @ (if 2 \<le> length bss then [ExpandAgents] else [])
     @ (if 5 \<le> length learning_log then
          let recent = drop (length learning_log - 5) learning_log;
              avg_challenges = (of_nat (sum_list (map challenges_count recent)) :: rat) / 5
          in if 3 < avg_challenges then [OverSensitive avg_challenges] else []
        else [])"

definition calc_threat_level :: "challenge_rec list \<Rightarrow> blind_spot list \<Rightarrow> threat" where
  "calc_threat_level chs bss =
     (let high_n = length (filter (\<lambda>c. cseverity c = ''high'') chs);
          total_n = length chs + length bss
      in if 2 \<le> high_n \<or> 5 \<le> total_n then High
         else if 1 \<le> high_n \<or> 3 \<le> total_n then Medium
         else Low)"

definition build_summary ::
  "challenge_rec list \<Rightarrow> blind_spot list \<Rightarrow> recommendation list \<Rightarrow> threat \<Rightarrow> summary_part list" where
  "build_summary chs bss recs t =
     [FoundCounts (length chs) (length bss), ThreatIs t]
     @ (if recs \<noteq> [] then [Recommended (length recs)] else [])"

text \<open>
  \<^verbatim>\<open>if fp_checks["adjustment"]: confidence_adjustments.append(...)\<close>: a module's
  proposal counts when it is neither \<^verbatim>\<open>None\<close> nor zero.
\<close>

definition proposed :: "rat option \<Rightarrow> rat list" where
  "proposed a = (case a of None \<Rightarrow> [] | Some x \<Rightarrow> if x \<noteq> 0 then [x] else [])"

text \<open>
  \<^verbatim>\<open>RedTeamAgent.challenge\<close>. The class attribute \<^verbatim>\<open>learning_log\<close> is the
  one list every instance appends to: it is passed in and returned. \<open>now\<close> is
  \<^verbatim>\<open>datetime.utcnow().isoformat()\<close>; the file name is never read.
\<close>

definition challenge ::
  "log_entry list \<Rightarrow> string \<Rightarrow> media_file \<Rightarrow> opinion list \<Rightarrow> cross_reference
     \<Rightarrow> critique \<times> log_entry list" where
  "challenge learning_log now f agent_results cross_ref =
     (let (fp_challenges, fp_adjustment) = check_false_positives agent_results f;
          bss = check_false_negatives agent_results;
          (cons_challenges, cons_adjustment) = check_cross_consistency agent_results;
          (edge_challenges, edge_recommendations) = check_edge_cases f;
          meta_challenges = challenge_verdict cross_ref agent_results;
          chs = fp_challenges @ cons_challenges @ edge_challenges @ meta_challenges;
          confidence_adjustments = proposed fp_adjustment @ proposed cons_adjustment;
          adj = (if confidence_adjustments \<noteq> []
                 then sum_list confidence_adjustments / of_nat (length confidence_adjustments)
                 else 0);
          recs = edge_recommendations @ generate_recommendations learning_log chs bss;
          entry = \<lparr>timestamp = now, file_hash = sha256_16 f,
                   challenges_count = length chs, blind_spots_count = length bss,
                   logged_adjustment = py_round adj 3,
                   verdict_challenged = (0 < length meta_challenges)\<rparr>;
          learning_log' = learning_log @ [entry];
          t = calc_threat_level chs bss
      in (\<lparr>critic_type = ''red_team'', challenges = chs, blind_spots = bss,
           recommendations = recs, confidence_adjustment = py_round adj 3,
           threat_level = t, learning_log_size = length learning_log',
           summary = build_summary chs bss recs t\<rparr>,
          learning_log'))"

section \<open>Orchestrator\<close>

record final =
  verdict :: verdict
  confidence :: rat
  hitl_required :: bool

text \<open>\<^verbatim>\<open>Orchestrator._final_verdict\<close>\<close>

definition orchestrator_final_verdict :: "cross_reference \<Rightarrow> critique \<Rightarrow> final" where
  "orchestrator_final_verdict cross_ref red_team =
     (let base_score = combined_score cross_ref;
          base_verdict = final_verdict cross_ref;
          adj = confidence_adjustment red_team;
          adjusted_score = max (5 / 100) (min (99 / 100) (base_score + adj));
          t = threat_level red_team;
          high_challenges = filter (\<lambda>c. ctype c = ''verdict_challenge'') (challenges red_team);
          adjusted_verdict =
            (if high_challenges \<noteq> [] \<and> (base_verdict = Authentic \<or> base_verdict = Forged)
             then Inconclusive
             else if 75 / 100 \<le> adjusted_score \<and> base_verdict = Authentic then Authentic
             else if base_verdict = Forged then Forged
             else Inconclusive);
          hitl = (adjusted_verdict = Inconclusive \<or> (t = High \<or> t = Medium)
                  \<or> 2 \<le> length (blind_spots red_team))
      in \<lparr>verdict = adjusted_verdict, confidence = py_round adjusted_score 3,
          hitl_required = hitl\<rparr>)"

section \<open>Signal analyzer\<close>

text \<open>The anomaly tags of the forensic agent; the Hebrew ones as UTF-8 bytes.\<close>

definition editing_tag :: string where
  "editing_tag =
     [CHR 0xD7, CHR 0xAA, CHR 0xD7, CHR 0x95, CHR 0xD7, CHR 0x9B, CHR 0xD7, CHR 0xA0,
      CHR 0xD7, CHR 0xAA, CHR 0x20, CHR 0xD7, CHR 0xA2, CHR 0xD7, CHR 0xA8, CHR 0xD7,
      CHR 0x99, CHR 0xD7, CHR 0x9B, CHR 0xD7, CHR 0x94]"

definition dates_tag :: string where
  "dates_tag =
     [CHR 0xD7, CHR 0xAA, CHR 0xD7, CHR 0x90, CHR 0xD7, CHR 0xA8, CHR 0xD7, CHR 0x99,
      CHR 0xD7, CHR 0x9B, CHR 0xD7, CHR 0x99, CHR 0xD7, CHR 0x9D]"

definition ela_general_tag :: string where
  "ela_general_tag =
     [CHR 0x45, CHR 0x4C, CHR 0x41, CHR 0x20, CHR 0xD7, CHR 0x9B, CHR 0xD7, CHR 0x9C,
      CHR 0xD7, CHR 0x9C, CHR 0xD7, CHR 0x99]"

definition double_compression_tag :: string where
  "double_compression_tag =
     [CHR 0xD7, CHR 0x93, CHR 0xD7, CHR 0x97, CHR 0xD7, CHR 0x99, CHR 0xD7, CHR 0xA1,
      CHR 0xD7, CHR 0x94, CHR 0x20, CHR 0xD7, CHR 0x9B, CHR 0xD7, CHR 0xA4, CHR 0xD7,
      CHR 0x95, CHR 0xD7, CHR 0x9C, CHR 0xD7, CHR 0x94]"

definition compression_tag :: string where
  "compression_tag =
     [CHR 0xD7, CHR 0x93, CHR 0xD7, CHR 0x97, CHR 0xD7, CHR 0x99, CHR 0xD7, CHR 0xA1,
      CHR 0xD7, CHR 0x94]"

definition dimensions_tag :: string where
  "dimensions_tag =
     [CHR 0xD7, CHR 0x9E, CHR 0xD7, CHR 0x99, CHR 0xD7, CHR 0x9E, CHR 0xD7, CHR 0x93,
      CHR 0xD7, CHR 0x99, CHR 0xD7, CHR 0x9D]"

text \<open>\<^verbatim>\<open>_anomaly(type_, desc, severity, location)\<close>\<close>

definition mk_anomaly :: "string \<Rightarrow> string \<Rightarrow> anomaly" where
  "mk_anomaly ty sev = \<lparr>atype = ty, severity = sev\<rparr>"

text \<open>\<^verbatim>\<open>_result(confidence, findings, anomalies)\<close>\<close>

definition mk_result :: "rat \<Rightarrow> (string \<times> fval) list \<Rightarrow> anomaly list \<Rightarrow> opinion" where
  "mk_result c fs as =
     \<lparr>agent_type = ''forensic_technical'', confidence_score = c, findings = fs,
      anomalies = as\<rparr>"

definition editing_tools :: "string list" where
  "editing_tools =
     [''photoshop'', ''gimp'', ''lightroom'', ''snapseed'', ''picsart'', ''canva'']"

definition exif_get :: "(string \<times> string) list \<Rightarrow> string \<Rightarrow> string" where
  "exif_get exif_data k = (case map_of exif_data k of Some v \<Rightarrow> v | None \<Rightarrow> [])"

text \<open>
  \<^verbatim>\<open>_analyze_exif\<close>. \<open>getexif img\<close> stands for the call \<^verbatim>\<open>img._getexif()\<close>
  and the loop that fills \<^verbatim>\<open>exif_data\<close>: it reads the items of that dictionary
  (none when the image has no EXIF reader or no EXIF block), or raises. The call is
  not inside a \<^verbatim>\<open>try\<close>, so its exception leaves the function.
\<close>

definition analyze_exif :: "image \<Rightarrow> error + anomaly list \<times> (string \<times> fval) list" where
  "analyze_exif img =
     (case getexif img of
        Raises \<Rightarrow> Inl PILError
      | Reads exif_data \<Rightarrow>
          let fs = [(''has_exif'', FBool (exif_data \<noteq> [])),
                    (''exif_tags_count'', FNum (of_nat (length exif_data)))]
          in if exif_data = [] then Inr ([mk_anomaly metadata_tag ''medium''], fs)
             else
               let software = exif_get exif_data ''Software'';
                   (tool_anomalies, tool_findings) =
                     (if software \<noteq> [] then
                        (if list_ex (\<lambda>tool. str_contains (str_lower software) (str_lower tool))
                              editing_tools
                         then [mk_anomaly editing_tag ''medium''] else [],
                         [(''software'', FStr software)])
                      else ([], []));
                   date_original = exif_get exif_data ''DateTimeOriginal'';
                   date_modified = exif_get exif_data ''DateTime'';
                   (date_anomalies, date_findings) =
                     (if date_original \<noteq> [] \<and> date_modified \<noteq> []
                         \<and> date_original \<noteq> date_modified then
                        ([mk_anomaly dates_tag ''high''],
                         [(''date_original'', FStr date_original),
                          (''date_modified'', FStr date_modified)])
                      else ([], []))
               in Inr (tool_anomalies @ date_anomalies,
                       fs @ tool_findings @ date_findings))"

text \<open>
  \<^verbatim>\<open>_analyze_ela\<close>: the whole body is inside \<^verbatim>\<open>try\<close>. An exception (raised
  by the conversion, the resave or the difference, before any statistic is stored) leaves
  only its message in the findings. The region means are those of an image of at least
  4 by 4 pixels; below that numpy yields NaN, which no comparison accepts.
\<close>

definition analyze_ela :: "image \<Rightarrow> anomaly list \<times> (string \<times> fval) list" where
  "analyze_ela img =
     (case ela_measure img of
        ElaError msg \<Rightarrow> ([], [(''ela_error'', FStr msg)])
      | ElaStats mean_error max_error std_error region_means \<Rightarrow>
          let overall_mean = sum_list region_means / of_nat (length region_means);
              region_anomalies =
                map (\<lambda>m. mk_anomaly ''ELA'' ''high'')
                  (filter (\<lambda>m. overall_mean * (25 / 10) < m \<and> 15 < m) region_means)
          in (region_anomalies
              @ (if 20 < std_error then [mk_anomaly ela_general_tag ''medium''] else []),
              [(''mean_error'', FNum (py_round mean_error 2)),
               (''max_error'', FNum (py_round max_error 2)),
               (''std_error'', FNum (py_round std_error 2)),
               (''region_analysis'', FBool True)]))"

text \<open>
  \<^verbatim>\<open>_analyze_compression\<close>. \<open>q_tables img\<close> is \<^verbatim>\<open>len(img.quantization)\<close>
  (0 when the attribute is missing or empty) and \<open>q_std img\<close> is \<^verbatim>\<open>np.std\<close> of the
  first table when that table is a list or a tuple.
\<close>

definition analyze_compression ::
  "nat \<Rightarrow> image \<Rightarrow> anomaly list \<times> (string \<times> fval) list" where
  "analyze_compression n_bytes img =
     (let fs = [(''format'', FStr (case img_format img of
                                     None \<Rightarrow> ''unknown''
                                   | Some fm \<Rightarrow> if fm = [] then ''unknown'' else fm)),
                (''file_size_bytes'', FNum (of_nat n_bytes)),
                (''mode'', FStr (img_mode img))];
          (q_anomalies, q_findings) =
            (if img_format img = Some ''JPEG'' \<and> 0 < q_tables img then
               (case q_std img of
                  None \<Rightarrow> ([], [(''quantization_tables'', FNum (of_nat (q_tables img)))])
                | Some s \<Rightarrow>
                    (if 25 < s then [mk_anomaly double_compression_tag ''medium''] else [],
                     [(''quantization_tables'', FNum (of_nat (q_tables img))),
                      (''q_table_std'', FNum (py_round s 2))]))
             else ([], []));
          pixels = img_width img * img_height img;
          (b_anomalies, b_findings) =
            (if 0 < pixels then
               let bytes_per_pixel = (of_nat n_bytes :: rat) / of_nat pixels
               in (if bytes_per_pixel < 1 / 10 \<and> img_format img = Some ''JPEG''
                   then [mk_anomaly compression_tag ''low''] else [],
                   [(''bytes_per_pixel'', FNum (py_round bytes_per_pixel 4))])
             else ([], []))
      in (q_anomalies @ b_anomalies, fs @ q_findings @ b_findings))"

definition ai_dimensions :: "(nat \<times> nat) list" where
  "ai_dimensions =
     [(512, 512), (768, 768), (1024, 1024), (1024, 1792), (1792, 1024),
      (512, 768), (768, 512), (1024, 768), (768, 1024)]"

definition analyze_dimensions :: "image \<Rightarrow> anomaly list \<times> (string \<times> fval) list" where
  "analyze_dimensions img =
     (if (img_width img, img_height img) \<in> set ai_dimensions
      then [mk_anomaly dimensions_tag ''medium''] else [],
      [(''width'', FNum (of_nat (img_width img))),
       (''height'', FNum (of_nat (img_height img))),
       (''megapixels'',
          FNum (py_round (of_nat (img_width img * img_height img) / 1000000) 2))])"

definition severity_scores :: "(string \<times> rat) list" where
  "severity_scores = [(''high'', 15 / 100), (''medium'', 8 / 100), (''low'', 3 / 100)]"

definition penalty :: "anomaly \<Rightarrow> rat" where
  "penalty a = (case map_of severity_scores (severity a) of Some p \<Rightarrow> p | None \<Rightarrow> 0)"

definition calculate_confidence :: "anomaly list \<Rightarrow> rat" where
  "calculate_confidence as =
     (if as = [] then 92 / 100
      else let total_penalty = sum_list (map penalty as)
           in max (15 / 100) (py_round (92 / 100 - total_penalty) 2))"

text \<open>
  \<^verbatim>\<open>ForensicTechnicalAgent.analyze\<close>: \<open>Inl\<close> is an exception that leaves the
  function, \<open>Inr\<close> the opinion it returns. The file name is never read.
\<close>

definition forensic_analyze :: "media_file \<Rightarrow> error + opinion" where
  "forensic_analyze f =
     (case opened f of
        None \<Rightarrow> Inr (mk_result (1 / 2) [] [mk_anomaly ''format'' ''medium''])
      | Some img \<Rightarrow>
          (case analyze_exif img of
             Inl e \<Rightarrow> Inl e
           | Inr (exif_anomalies, exif_findings) \<Rightarrow>
               let (ela_anomalies, ela_findings) = analyze_ela img;
                   (comp_anomalies, comp_findings) = analyze_compression (file_len f) img;
                   (dim_anomalies, dim_findings) = analyze_dimensions img;
                   as = exif_anomalies @ ela_anomalies @ comp_anomalies @ dim_anomalies;
                   fs = [(''exif'', FObj exif_findings), (''ela'', FObj ela_findings),
                         (''compression'', FObj comp_findings),
                         (''dimensions'', FObj dim_findings)]
               in Inr (mk_result (calculate_confidence as) fs as)))"

section \<open>Rules of the specification\<close>

text \<open>
  The rules as the specification words them, over the counts they are stated on, to be
  compared with what the code computes from its lists.
\<close>

text \<open>The verdict rule of the aggregator (4.2), first match wins.\<close>

definition verdict_rule :: "nat \<Rightarrow> rat \<Rightarrow> verdict" where
  "verdict_rule high_count score =
     (if 3 \<le> high_count \<or> (2 \<le> high_count \<and> score < 1 / 2) then Forged
      else if 75 / 100 \<le> score \<and> high_count = 0 then Authentic
      else Inconclusive)"

text \<open>The number of high-severity anomalies over all opinions.\<close>

definition high_total :: "opinion list \<Rightarrow> nat" where
  "high_total rs = (\<Sum>r\<leftarrow>rs. length (filter (\<lambda>a. severity a = ''high'') (anomalies r)))"

text \<open>The threat rule of the critique engine (4.3) and the order low, medium, high.\<close>

definition threat_rule :: "nat \<Rightarrow> nat \<Rightarrow> threat" where
  "threat_rule high_n total_n =
     (if 2 \<le> high_n \<or> 5 \<le> total_n then High
      else if 1 \<le> high_n \<or> 3 \<le> total_n then Medium
      else Low)"

fun threat_rank :: "threat \<Rightarrow> nat" where
  "threat_rank Low = 0"
| "threat_rank Medium = 1"
| "threat_rank High = 2"

text \<open>The number of high-severity challenges.\<close>

definition high_challenge_count :: "challenge_rec list \<Rightarrow> nat" where
  "high_challenge_count chs = length (filter (\<lambda>c. cseverity c = ''high'') chs)"

text \<open>The mean over the modules that proposed an adjustment; 0 when none did.\<close>

definition mean_of_proposed :: "rat option list \<Rightarrow> rat" where
  "mean_of_proposed ps =
     (let xs = List.map_filter id ps
      in if xs = [] then 0 else sum_list xs / of_nat (length xs))"

text \<open>Some challenge is of kind \<^verbatim>\<open>verdict_challenge\<close>.\<close>

definition has_verdict_challenge :: "challenge_rec list \<Rightarrow> bool" where
  "has_verdict_challenge chs = list_ex (\<lambda>c. ctype c = ''verdict_challenge'') chs"

text \<open>The penalty of one anomaly, by severity (4.1).\<close>

definition spec_penalty :: "string \<Rightarrow> rat" where
  "spec_penalty sev =
     (if sev = ''high'' then 15 / 100
      else if sev = ''medium'' then 8 / 100
      else if sev = ''low'' then 3 / 100
      else 0)"

section \<open>Sample inputs\<close>

text \<open>
  Concrete opinions and files on which the theorems below are evaluated.
  \<open>lone_opinion\<close> is the single forensic opinion with confidence 0.95 and no anomalies;
  \<open>sample_truncated_png\<close> is a file that opens but whose EXIF read raises.
  \<open>sample_panel\<close> is a set of four opinions whose weighted mean is 0.7495 in exact
  arithmetic and 0.7494999999999999 in binary64.
\<close>

definition sample_opinion :: "string \<Rightarrow> rat \<Rightarrow> string list \<Rightarrow> opinion" where
  "sample_opinion kind c sevs =
     \<lparr>agent_type = kind, confidence_score = c, findings = [],
      anomalies = map (\<lambda>s. \<lparr>atype = ''sample'', severity = s\<rparr>) sevs\<rparr>"

definition sample_challenge :: "string \<Rightarrow> string \<Rightarrow> challenge_rec" where
  "sample_challenge kind sev =
     \<lparr>ctype = kind, target_agent = None, target_anomaly = None, cseverity = sev\<rparr>"

definition sample_blind_spot :: blind_spot where
  "sample_blind_spot = \<lparr>agent = ''system'', risk = ''missing_agent''\<rparr>"

definition sample_image :: image where
  "sample_image =
     \<lparr>img_format = Some ''JPEG'', img_width = 800, img_height = 600, img_mode = ''RGB'',
      getexif = Reads [(''Make'', ''Canon'')], q_tables = 2, q_std = Some 10,
      ela_measure = ElaStats 1 9 2 (replicate 16 1)\<rparr>"

definition sample_file :: media_file where
  "sample_file =
     \<lparr>file_len = 200000, sha256_16 = ''0123456789abcdef'', opened = Some sample_image\<rparr>"

definition sample_compressed_file :: media_file where
  "sample_compressed_file = sample_file\<lparr>file_len := 100000\<rparr>"

definition sample_disputed :: "opinion list" where
  "sample_disputed =
     [\<lparr>agent_type = ''forensic_technical'', confidence_score = 47 / 100, findings = [],
       anomalies = [mk_anomaly ''ELA'' ''high'', mk_anomaly ''ELA'' ''high'']\<rparr>,
      \<lparr>agent_type = ''physical'', confidence_score = 90 / 100, findings = [],
       anomalies = []\<rparr>]"

definition sample_panel :: "opinion list" where
  "sample_panel =
     [sample_opinion ''forensic_technical'' (89 / 100) [],
      sample_opinion ''physical'' (72 / 100) [],
      sample_opinion ''contextual'' (65 / 100) [],
      sample_opinion ''ai_generation'' (64 / 100) []]"

definition sample_authentic :: cross_reference where
  "sample_authentic =
     \<lparr>combined_score = 90 / 100, final_verdict = Authentic, reasoning = [],
      anomaly_summary = None\<rparr>"


definition sample_ai_sized_image :: image where
  "sample_ai_sized_image =
     \<lparr>img_format = Some ''JPEG'', img_width = 1024, img_height = 1024, img_mode = ''RGB'',
      getexif = Reads [(''Make'', ''Canon'')], q_tables = 2, q_std = Some 30,
      ela_measure = ElaStats 1 9 2 (replicate 16 1)\<rparr>"

definition sample_ai_sized_file :: media_file where
  "sample_ai_sized_file =
     \<lparr>file_len = 300000, sha256_16 = ''89abcdef01234567'',
      opened = Some sample_ai_sized_image\<rparr>"

definition sample_undecodable_file :: media_file where
  "sample_undecodable_file =
     \<lparr>file_len = 12, sha256_16 = ''fedcba9876543210'', opened = None\<rparr>"

definition sample_truncated_png :: media_file where
  "sample_truncated_png =
     \<lparr>file_len = 4096, sha256_16 = ''0f1e2d3c4b5a6978'',
      opened = Some \<lparr>img_format = Some ''PNG'', img_width = 640, img_height = 480,
                      img_mode = ''RGB'', getexif = Raises, q_tables = 0, q_std = None,
                      ela_measure = ElaError ''image file is truncated''\<rparr>\<rparr>"

section \<open>Rounding\<close>

lemma round_half_even_of_int: "round_half_even (of_int n) = n"
  by (simp add: round_half_even_def)

lemma round_half_even_cases:
  "round_half_even x = \<lfloor>x\<rfloor> \<or> round_half_even x = \<lfloor>x\<rfloor> + 1"
  by (simp add: round_half_even_def Let_def)

lemma round_half_even_bounds:
  assumes "of_int a \<le> x" and "x \<le> of_int b"
  shows "a \<le> round_half_even x \<and> round_half_even x \<le> b"
proof -
  have fl: "a \<le> \<lfloor>x\<rfloor>" using assms(1) by (simp add: le_floor_iff)
  have fu: "\<lfloor>x\<rfloor> \<le> b" using assms(2) by (simp add: floor_le_iff)
  show ?thesis
  proof (cases "x = of_int \<lfloor>x\<rfloor>")
    case True
    then have "round_half_even x = round_half_even (of_int \<lfloor>x\<rfloor>)" by simp
    then have "round_half_even x = \<lfloor>x\<rfloor>" by (simp only: round_half_even_of_int)
    with fl fu show ?thesis by simp
  next
    case False
    have ne: "of_int \<lfloor>x\<rfloor> \<noteq> x" using False by (rule not_sym)
    have lt: "of_int \<lfloor>x\<rfloor> < x"
      using ne of_int_floor_le by (rule order.not_eq_order_implies_strict)
    have "\<lfloor>x\<rfloor> \<noteq> b"
    proof
      assume "\<lfloor>x\<rfloor> = b"
      with lt assms(2) show False by simp
    qed
    with fu have "\<lfloor>x\<rfloor> < b" by simp
    with fl round_half_even_cases [of x] show ?thesis by auto
  qed
qed

text \<open>
  Rounding to the nearest binary64 number is monotone and keeps 0 and 1, because both are
  binary64 numbers.
\<close>

lemma pow2_powi: "pow2 e = 2 powi e"
  by (simp add: pow2_def power_int_def field_simps)

lemma pow2_pos: "0 < pow2 e"
  by (simp add: pow2_def)

lemma pow2_add: "pow2 (a + b) = pow2 a * pow2 b"
  by (simp add: pow2_powi power_int_add)

lemma pow2_mono: "a \<le> b \<Longrightarrow> pow2 a \<le> pow2 b"
  by (simp add: pow2_powi power_int_increasing)

lemma pow2_less_cancel: "pow2 a < pow2 b \<Longrightarrow> a < b"
proof (rule ccontr)
  assume l: "pow2 a < pow2 b" and "\<not> a < b"
  then have "b \<le> a" by simp
  then have "pow2 b \<le> pow2 a" by (rule pow2_mono)
  with l show False by simp
qed

lemma pow2_nat: "pow2 (int n) = 2 ^ n"
  by (simp add: pow2_def)

lemma pow2_minus: "pow2 (- e) = 1 / pow2 e"
  by (simp add: pow2_powi power_int_minus field_simps)

lemma pow2_of_nonneg: "0 \<le> e \<Longrightarrow> pow2 e = of_int (2 ^ nat e)"
  by (simp add: pow2_def)

lemma bitlen_pos: "0 < n \<Longrightarrow> 1 \<le> bitlen n"
proof (rule ccontr)
  assume n: "0 < n" and "\<not> 1 \<le> bitlen n"
  then have "nat (bitlen n) = 0" by simp
  with bitlen_bounds [OF n] have "n < 1" by simp
  with n show False by simp
qed

lemma expo_bounds:
  assumes "0 < x"
  shows "pow2 (expo x) \<le> x \<and> x < pow2 (expo x + 1)"
proof (cases "1 \<le> x")
  case True
  define n where "n = \<lfloor>x\<rfloor>"
  have n1: "1 \<le> n" using True by (simp add: n_def le_floor_iff)
  then have n0: "0 < n" by simp
  from bitlen_bounds [OF n0]
  have b: "2 ^ nat (bitlen n - 1) \<le> n" "n + 1 \<le> 2 ^ nat (bitlen n)" by simp_all
  have bl: "1 \<le> bitlen n" using n0 by (rule bitlen_pos)
  have e: "expo x = bitlen n - 1" using True by (simp add: expo_def n_def)
  have p1: "pow2 (bitlen n - 1) = of_int (2 ^ nat (bitlen n - 1))"
    using bl by (simp add: pow2_of_nonneg)
  have p2: "pow2 (bitlen n) = of_int (2 ^ nat (bitlen n))"
    using bl by (simp add: pow2_of_nonneg)
  have "(of_int (2 ^ nat (bitlen n - 1)) :: rat) \<le> of_int n"
    using b(1) by (simp only: of_int_le_iff)
  also have "of_int n \<le> x" by (simp add: n_def)
  finally have lo: "pow2 (expo x) \<le> x" by (simp only: e p1)
  have "x < of_int (n + 1)" using floor_correct [of x] by (simp add: n_def)
  also have "(of_int (n + 1) :: rat) \<le> of_int (2 ^ nat (bitlen n))"
    using b(2) by (simp only: of_int_le_iff)
  finally have "x < pow2 (bitlen n)" by (simp only: p2)
  then have hi: "x < pow2 (expo x + 1)" by (simp add: e)
  from lo hi show ?thesis by simp
next
  case False
  define m where "m = \<lceil>1 / x\<rceil> - 1"
  define k where "k = bitlen m"
  have "(of_int 1 :: rat) < 1 / x" using assms False by simp
  then have "1 < \<lceil>1 / x\<rceil>" by (simp only: less_ceiling_iff)
  then have m0: "0 < m" by (simp add: m_def)
  from bitlen_bounds [OF m0]
  have b: "2 ^ nat (k - 1) \<le> m" "m + 1 \<le> 2 ^ nat k" by (simp_all add: k_def)
  have k1: "1 \<le> k" using m0 unfolding k_def by (rule bitlen_pos)
  have e: "expo x = - k" using False by (simp add: expo_def m_def k_def)
  have ml: "of_int m < 1 / x" using ceiling_correct [of "1 / x"] by (simp add: m_def)
  have mu: "1 / x \<le> of_int (m + 1)" using ceiling_correct [of "1 / x"] by (simp add: m_def)
  have "(of_int (m + 1) :: rat) \<le> of_int (2 ^ nat k)" using b(2) by (simp only: of_int_le_iff)
  with mu have "1 / x \<le> of_int (2 ^ nat k)" by (rule order_trans)
  then have "1 / x \<le> pow2 k" using k1 by (simp add: pow2_of_nonneg)
  then have "1 \<le> pow2 k * x" using assms by (simp add: field_simps)
  then have "1 / pow2 k \<le> x" using pow2_pos [of k] by (simp add: field_simps)
  then have lo: "pow2 (expo x) \<le> x" by (simp only: e pow2_minus)
  have "(of_int (2 ^ nat (k - 1)) :: rat) \<le> of_int m" using b(1) by (simp only: of_int_le_iff)
  then have "of_int (2 ^ nat (k - 1)) < 1 / x" using ml by (rule le_less_trans)
  then have "pow2 (k - 1) < 1 / x" using k1 by (simp add: pow2_of_nonneg)
  then have "pow2 (k - 1) * x < 1" using assms by (simp add: field_simps)
  then have "x < 1 / pow2 (k - 1)" using pow2_pos [of "k - 1"] by (simp add: field_simps)
  then have "x < pow2 (- (k - 1))" by (simp only: pow2_minus)
  then have hi: "x < pow2 (expo x + 1)" by (simp add: e)
  from lo hi show ?thesis by simp
qed

lemma expo_mono:
  assumes "0 < x" and "x \<le> y"
  shows "expo x \<le> expo y"
proof -
  have y: "0 < y" using assms by simp
  have "pow2 (expo x) \<le> x" using expo_bounds [OF assms(1)] by simp
  also have "x \<le> y" by (rule assms(2))
  also have "y < pow2 (expo y + 1)" using expo_bounds [OF y] by simp
  finally have "expo x < expo y + 1" by (rule pow2_less_cancel)
  then show ?thesis by simp
qed

lemma round_half_even_mono:
  assumes "x \<le> y"
  shows "round_half_even x \<le> round_half_even y"
proof (cases "\<lfloor>x\<rfloor> = \<lfloor>y\<rfloor>")
  case True
  with assms show ?thesis by (auto simp add: round_half_even_def Let_def)
next
  case False
  moreover have "\<lfloor>x\<rfloor> \<le> \<lfloor>y\<rfloor>" using assms by (rule floor_mono)
  ultimately have "\<lfloor>x\<rfloor> + 1 \<le> \<lfloor>y\<rfloor>" by simp
  with round_half_even_cases [of x] round_half_even_cases [of y] show ?thesis by auto
qed

lemma round_half_even_ge: "of_int a \<le> x \<Longrightarrow> a \<le> round_half_even x"
  using round_half_even_mono [of "of_int a" x] by (simp only: round_half_even_of_int)

lemma round_half_even_le: "x \<le> of_int b \<Longrightarrow> round_half_even x \<le> b"
  using round_half_even_mono [of x "of_int b"] by (simp only: round_half_even_of_int)

lemma pow2_split53: "pow2 53 * pow2 (e - 52) = pow2 (e + 1)"
  using pow2_add [of 53 "e - 52"] by (simp add: algebra_simps)

lemma pow2_split52: "pow2 52 * pow2 (e - 52) = pow2 e"
  using pow2_add [of 52 "e - 52"] by simp

lemma quantum_pos: "0 < quantum x"
  by (simp add: quantum_def pow2_pos)

lemma fl_pos_nonneg:
  assumes "0 \<le> x"
  shows "0 \<le> fl_pos x"
proof -
  have "of_int 0 \<le> x / quantum x" using assms quantum_pos [of x] by simp
  then have "0 \<le> round_half_even (x / quantum x)" by (rule round_half_even_ge)
  then have "(0 :: rat) \<le> of_int (round_half_even (x / quantum x))" by simp
  then show ?thesis using quantum_pos [of x] by (simp add: fl_pos_def)
qed

lemma fl_pos_upper:
  assumes "0 < x" and "expo x \<le> e" and "- 1022 \<le> e" 
  shows "fl_pos x \<le> pow2 (e + 1)"
proof -
  define d where "d = max (expo x) (- 1022)"
  have de: "d \<le> e" using assms by (simp add: d_def)
  have q: "quantum x = pow2 (d - 52)" by (simp add: quantum_def d_def)
  have "x < pow2 (expo x + 1)" using expo_bounds [OF assms(1)] by simp
  also have "pow2 (expo x + 1) \<le> pow2 (d + 1)" by (rule pow2_mono) (simp add: d_def)
  also have "pow2 (d + 1) = pow2 53 * pow2 (d - 52)" by (simp only: pow2_split53)
  finally have "x < pow2 53 * quantum x" by (simp only: q)
  then have "x / quantum x \<le> pow2 53" using quantum_pos [of x] by (simp add: field_simps)
  then have "x / quantum x \<le> of_int (2 ^ 53)" by (simp add: pow2_def)
  then have "round_half_even (x / quantum x) \<le> 2 ^ 53" by (rule round_half_even_le)
  then have "(of_int (round_half_even (x / quantum x)) :: rat) \<le> of_int (2 ^ 53)"
    by (simp only: of_int_le_iff)
  then have "of_int (round_half_even (x / quantum x)) \<le> pow2 53" by (simp add: pow2_def)
  then have "fl_pos x \<le> pow2 53 * quantum x"
    using quantum_pos [of x] by (simp add: fl_pos_def)
  also have "pow2 53 * quantum x = pow2 (d + 1)" by (simp only: q pow2_split53)
  also have "pow2 (d + 1) \<le> pow2 (e + 1)" using de by (simp add: pow2_mono)
  finally show ?thesis .
qed

lemma fl_pos_lower:
  assumes "0 < y" and "- 1022 \<le> expo y"
  shows "pow2 (expo y) \<le> fl_pos y"
proof -
  have q: "quantum y = pow2 (expo y - 52)" using assms(2) by (simp add: quantum_def)
  have "pow2 52 * quantum y = pow2 (expo y)" by (simp only: q pow2_split52)
  also have "pow2 (expo y) \<le> y" using expo_bounds [OF assms(1)] by simp
  finally have "pow2 52 \<le> y / quantum y" using quantum_pos [of y] by (simp add: field_simps)
  then have "of_int (2 ^ 52) \<le> y / quantum y" by (simp add: pow2_def)
  then have "2 ^ 52 \<le> round_half_even (y / quantum y)" by (rule round_half_even_ge)
  then have "(of_int (2 ^ 52) :: rat) \<le> of_int (round_half_even (y / quantum y))"
    by (simp only: of_int_le_iff)
  then have "pow2 52 \<le> of_int (round_half_even (y / quantum y))" by (simp add: pow2_def)
  then have "pow2 52 * quantum y \<le> fl_pos y"
    using quantum_pos [of y] by (simp add: fl_pos_def)
  then show ?thesis by (simp only: q pow2_split52)
qed

lemma fl_pos_mono:
  assumes "0 < x" and "x \<le> y"
  shows "fl_pos x \<le> fl_pos y"
proof -
  have y: "0 < y" using assms by simp
  define d where "d = max (expo x) (- 1022)"
  define e where "e = max (expo y) (- 1022)"
  have ee: "expo x \<le> expo y" using assms by (rule expo_mono)
  then have de: "d \<le> e" by (simp add: d_def e_def)
  show ?thesis
  proof (cases "d = e")
    case True
    then have q: "quantum x = quantum y" by (simp add: quantum_def d_def e_def)
    have "x / quantum y \<le> y / quantum y"
      using assms(2) quantum_pos [of y] by (simp add: divide_right_mono)
    then have "round_half_even (x / quantum y) \<le> round_half_even (y / quantum y)"
      by (rule round_half_even_mono)
    then have "(of_int (round_half_even (x / quantum y)) :: rat)
        \<le> of_int (round_half_even (y / quantum y))" by (simp only: of_int_le_iff)
    then show ?thesis using quantum_pos [of y] by (simp add: fl_pos_def q)
  next
    case False
    with de have lt: "d < e" by simp
    then have ey: "e = expo y" and big: "- 1022 \<le> expo y"
      by (auto simp add: d_def e_def max_def split: if_splits)
    have "expo x \<le> e - 1" "- 1022 \<le> e - 1" using lt by (simp_all add: d_def)
    with assms(1) have "fl_pos x \<le> pow2 (e - 1 + 1)" by (rule fl_pos_upper)
    then have "fl_pos x \<le> pow2 (expo y)" by (simp add: ey)
    also have "pow2 (expo y) \<le> fl_pos y" using y big by (rule fl_pos_lower)
    finally show ?thesis .
  qed
qed

lemma fl64_mono:
  assumes "x \<le> y"
  shows "fl64 x \<le> fl64 y"
proof -
  consider "y < 0" | "x < 0" "0 \<le> y" | "0 \<le> x" by linarith
  then show ?thesis
  proof cases
    case 1
    then have "0 < - y" "- y \<le> - x" using assms by simp_all
    then have "fl_pos (- y) \<le> fl_pos (- x)" by (rule fl_pos_mono)
    with 1 assms show ?thesis by (simp add: fl64_def)
  next
    case 2
    have "0 \<le> fl_pos (- x)" using 2 by (simp add: fl_pos_nonneg)
    moreover have "0 \<le> fl_pos y" using 2 by (simp add: fl_pos_nonneg)
    ultimately show ?thesis using 2 by (simp add: fl64_def)
  next
    case 3
    show ?thesis
    proof (cases "x = 0")
      case True
      have "0 \<le> fl_pos y" using 3 assms by (simp add: fl_pos_nonneg)
      with True 3 assms show ?thesis by (simp add: fl64_def)
    next
      case False
      with 3 have "0 < x" by simp
      then have "fl_pos x \<le> fl_pos y" using assms by (rule fl_pos_mono)
      with \<open>0 < x\<close> assms show ?thesis by (simp add: fl64_def)
    qed
  qed
qed

lemma fl64_zero: "fl64 0 = 0"
  by (simp add: fl64_def)

lemma fl64_one: "fl64 1 = 1"
  by code_simp

lemma fl64_nonneg: "0 \<le> x \<Longrightarrow> 0 \<le> fl64 x"
  using fl64_mono [of 0 x] by (simp add: fl64_zero)

lemma fl64_le_one: "x \<le> 1 \<Longrightarrow> fl64 x \<le> 1"
  using fl64_mono [of x 1] by (simp add: fl64_one)

lemma py_round_unit:
  assumes "0 \<le> x" and "x \<le> 1"
  shows "0 \<le> py_round x 3 \<and> py_round x 3 \<le> 1"
proof -
  have lo: "of_int 0 \<le> x * 10 ^ 3" using assms by simp
  have hi: "x * 10 ^ 3 \<le> of_int 1000" using assms by simp
  have b: "0 \<le> round_half_even (x * 10 ^ 3) \<and> round_half_even (x * 10 ^ 3) \<le> 1000"
    using lo hi by (rule round_half_even_bounds)
  from b have "(of_int 0 :: rat) \<le> of_int (round_half_even (x * 10 ^ 3))"
    by (simp only: of_int_le_iff)
  moreover from b have "(of_int (round_half_even (x * 10 ^ 3)) :: rat) \<le> of_int 1000"
    by (simp only: of_int_le_iff)
  ultimately show ?thesis by (simp add: py_round_def)
qed

section \<open>Properties of the aggregator\<close>

text \<open>
  C8. On an empty opinion sequence the aggregator does not fail: it returns the
  combined score 0.5, the verdict inconclusive and, as its whole reasoning, the sentence
  that no findings were received.
\<close>

theorem aggregator_empty_input:
  "combined_score (cross_reference_analyze []) = 1 / 2
   \<and> final_verdict (cross_reference_analyze []) = Inconclusive
   \<and> reasoning (cross_reference_analyze []) = [NoFindings]"
  by (simp add: cross_reference_analyze_def analyze_with_def)

lemma fl64_weight:
  "0 < fl64 (weight_of WEIGHTS k)
   \<and> fl64 (fl64 (weight_of WEIGHTS k)) = fl64 (weight_of WEIGHTS k)"
proof -
  have c: "weight_of WEIGHTS k = 35 / 100 \<or> weight_of WEIGHTS k = 25 / 100
      \<or> weight_of WEIGHTS k = 20 / 100 \<or> weight_of WEIGHTS k = 1 / 10"
    by (simp add: weight_of_def WEIGHTS_def)
  have "0 < fl64 (35 / 100) \<and> fl64 (fl64 (35 / 100)) = fl64 (35 / 100)" by code_simp
  moreover have "0 < fl64 (25 / 100) \<and> fl64 (fl64 (25 / 100)) = fl64 (25 / 100)" by code_simp
  moreover have "0 < fl64 (20 / 100) \<and> fl64 (fl64 (20 / 100)) = fl64 (20 / 100)" by code_simp
  moreover have "0 < fl64 (1 / 10) \<and> fl64 (fl64 (1 / 10)) = fl64 (1 / 10)" by code_simp
  ultimately show ?thesis using c by metis
qed

lemma weigh_total_pos:
  assumes "0 < tw"
  shows "0 < snd (weigh WEIGHTS rs (ws, tw))"
  using assms
proof (induction rs arbitrary: ws tw)
  case Nil
  then show ?case by simp
next
  case (Cons r rs)
  define w where "w = fl64 (weight_of WEIGHTS (agent_type r))"
  have w0: "0 < w" and wi: "fl64 w = w"
    using fl64_weight [of "agent_type r"] by (simp_all add: w_def)
  have "w \<le> tw + w" using Cons.prems by simp
  then have "fl64 w \<le> fl64 (tw + w)" by (rule fl64_mono)
  with w0 wi have "0 < fl64 (tw + w)" by simp
  then have "0 < snd (weigh WEIGHTS rs
      (fl64 (ws + fl64 (fl64 (confidence_score r) * w)), fl64 (tw + w)))"
    by (rule Cons.IH)
  then show ?case by (simp add: Let_def w_def)
qed

lemma total_weight_pos:
  assumes "rs \<noteq> []"
  shows "0 < snd (weigh WEIGHTS rs (0, 0))"
proof (cases rs)
  case Nil
  with assms show ?thesis by simp
next
  case (Cons r rs')
  define w where "w = fl64 (weight_of WEIGHTS (agent_type r))"
  have w0: "0 < w" and wi: "fl64 w = w"
    using fl64_weight [of "agent_type r"] by (simp_all add: w_def)
  have "0 < snd (weigh WEIGHTS rs' (fl64 (0 + fl64 (fl64 (confidence_score r) * w)), w))"
    using w0 by (rule weigh_total_pos)
  then show ?thesis by (simp add: Cons Let_def w_def [symmetric] wi)
qed

lemma weighted_sum_bounds:
  assumes "\<forall>r\<in>set rs. 0 \<le> confidence_score r \<and> confidence_score r \<le> 1"
    and "0 \<le> ws" and "ws \<le> tw"
  shows "0 \<le> fst (weigh WEIGHTS rs (ws, tw))
       \<and> fst (weigh WEIGHTS rs (ws, tw)) \<le> snd (weigh WEIGHTS rs (ws, tw))"
  using assms
proof (induction rs arbitrary: ws tw)
  case Nil
  then show ?case by simp
next
  case (Cons r rs)
  define s where "s = fl64 (confidence_score r)"
  define w where "w = fl64 (weight_of WEIGHTS (agent_type r))"
  define p where "p = fl64 (s * w)"
  from Cons.prems(1) have c: "0 \<le> confidence_score r" "confidence_score r \<le> 1" by simp_all
  have s0: "0 \<le> s" unfolding s_def using c(1) by (rule fl64_nonneg)
  have s1: "s \<le> 1" unfolding s_def using c(2) by (rule fl64_le_one)
  have w0: "0 < w" and wi: "fl64 w = w"
    using fl64_weight [of "agent_type r"] by (simp_all add: w_def)
  have "0 \<le> s * w" using s0 w0 by simp
  then have p0: "0 \<le> p" unfolding p_def by (rule fl64_nonneg)
  have "s * w \<le> w" using s1 w0 by simp
  then have "fl64 (s * w) \<le> fl64 w" by (rule fl64_mono)
  then have pw: "p \<le> w" by (simp add: p_def wi)
  have "0 \<le> ws + p" using Cons.prems(2) p0 by simp
  then have a: "0 \<le> fl64 (ws + p)" by (rule fl64_nonneg)
  have "ws + p \<le> tw + w" using Cons.prems(3) pw by (rule add_mono)
  then have b: "fl64 (ws + p) \<le> fl64 (tw + w)" by (rule fl64_mono)
  have rest: "\<forall>r\<in>set rs. 0 \<le> confidence_score r \<and> confidence_score r \<le> 1"
    using Cons.prems(1) by simp
  from Cons.IH [OF rest a b] show ?case by (simp add: Let_def s_def w_def p_def)
qed

lemma combined_score_nonempty:
  assumes "rs \<noteq> []"
  shows "combined_score (analyze_with tbl rs) =
     (if 0 < snd (weigh tbl rs (0, 0))
      then py_round (fl64 (fst (weigh tbl rs (0, 0)) / snd (weigh tbl rs (0, 0)))) 3
      else 1 / 2)"
  using assms by (simp add: analyze_with_def Let_def case_prod_beta)

lemma final_verdict_nonempty:
  assumes "rs \<noteq> []"
  shows "final_verdict (analyze_with tbl rs) =
     (let score = combined_score (analyze_with tbl rs);
          high_count = count_severity ''high'' (all_anomalies rs)
      in if 3 \<le> high_count \<or> (2 \<le> high_count \<and> score < 1 / 2) then Forged
         else if CONFIDENCE_THRESHOLD \<le> score \<and> high_count = 0 then Authentic
         else Inconclusive)"
  using assms by (simp add: analyze_with_def Let_def case_prod_beta)

lemma combined_score_unit:
  assumes "\<forall>r\<in>set rs. 0 \<le> confidence_score r \<and> confidence_score r \<le> 1"
  shows "0 \<le> combined_score (cross_reference_analyze rs)
       \<and> combined_score (cross_reference_analyze rs) \<le> 1"
proof (cases "rs = []")
  case True
  then show ?thesis by (simp add: cross_reference_analyze_def analyze_with_def)
next
  case False
  let ?tw = "snd (weigh WEIGHTS rs (0, 0))"
  let ?ws = "fst (weigh WEIGHTS rs (0, 0))"
  have tw: "0 < ?tw" using False by (rule total_weight_pos)
  have b: "0 \<le> ?ws \<and> ?ws \<le> ?tw" using assms by (rule weighted_sum_bounds) simp_all
  from tw b have "0 \<le> ?ws / ?tw" "?ws / ?tw \<le> 1" by simp_all
  then have q: "0 \<le> fl64 (?ws / ?tw)" "fl64 (?ws / ?tw) \<le> 1"
    by (simp_all add: fl64_nonneg fl64_le_one)
  have "combined_score (cross_reference_analyze rs) = py_round (fl64 (?ws / ?tw)) 3"
    using False tw by (simp add: cross_reference_analyze_def combined_score_nonempty)
  with py_round_unit [OF q] show ?thesis by simp
qed

lemma high_total_count: "count_severity ''high'' (all_anomalies rs) = high_total rs"
  by (induction rs) (simp_all add: count_severity_def all_anomalies_def high_total_def)

text \<open>
  C3. For a non-empty opinion set the preliminary verdict is the verdict rule of the
  specification (first match wins: forged, then authentic, then inconclusive) applied to
  the number of high-severity anomalies over all opinions and to the combined score; so
  three or more high-severity anomalies give forged whatever the score.
\<close>

theorem preliminary_verdict_rule:
  "rs \<noteq> [] \<longrightarrow>
     final_verdict (cross_reference_analyze rs)
       = verdict_rule (high_total rs) (combined_score (cross_reference_analyze rs))
     \<and> (3 \<le> high_total rs \<longrightarrow> final_verdict (cross_reference_analyze rs) = Forged)"
  by (simp add: cross_reference_analyze_def final_verdict_nonempty high_total_count
      verdict_rule_def CONFIDENCE_THRESHOLD_def Let_def)

lemma sample_score:
  "combined_score (cross_reference_analyze
      [sample_opinion ''forensic_technical'' (99 / 100) [''high'', ''high'', ''high'']]) = 99 / 100"
  by code_simp

lemma sample_panel_score:
  "combined_score (cross_reference_analyze sample_panel) = 749 / 1000"
  by code_simp

theorem preliminary_verdict_rule_witness:
  "[sample_opinion ''forensic_technical'' (99 / 100) [''high'', ''high'', ''high'']] \<noteq> []
   \<and> high_total [sample_opinion ''forensic_technical'' (99 / 100) [''high'', ''high'', ''high'']] = 3
   \<and> combined_score (cross_reference_analyze
        [sample_opinion ''forensic_technical'' (99 / 100) [''high'', ''high'', ''high'']]) = 99 / 100
   \<and> final_verdict (cross_reference_analyze
        [sample_opinion ''forensic_technical'' (99 / 100) [''high'', ''high'', ''high'']]) = Forged"
proof -
  let ?rs = "[sample_opinion ''forensic_technical'' (99 / 100) [''high'', ''high'', ''high'']]"
  have ne: "?rs \<noteq> []" by simp
  have h: "high_total ?rs = 3" by (simp add: high_total_def sample_opinion_def)
  have h3: "3 \<le> high_total ?rs" using h by simp
  from preliminary_verdict_rule [of ?rs] ne h3
  have "final_verdict (cross_reference_analyze ?rs) = Forged" by blast
  with ne h sample_score show ?thesis by simp
qed

lemma threat_rule_mono:
  "h \<le> h' \<Longrightarrow> t \<le> t' \<Longrightarrow> threat_rank (threat_rule h t) \<le> threat_rank (threat_rule h' t')"
  by (simp add: threat_rule_def)

text \<open>
  C9. When every opinion's confidence lies in [0,1], so does the combined score, computed
  as the code computes it: the products and the two running sums are rounded to binary64
  after every operation, then the quotient, then the quotient is rounded to three
  decimals. Rounding is monotone and keeps 0 and 1, so the weighted sum stays between 0
  and the total weight and the quotient between 0 and 1. The aggregator never divides by
  a zero total weight: with the weight table of the code the total weight of a non-empty
  opinion list is positive, and for any weight table a total weight of 0 makes the
  combined score the fallback 0.5.
\<close>

theorem combined_score_in_unit_interval:
  "((\<forall>r\<in>set rs. 0 \<le> confidence_score r \<and> confidence_score r \<le> 1)
      \<longrightarrow> 0 \<le> combined_score (cross_reference_analyze rs)
          \<and> combined_score (cross_reference_analyze rs) \<le> 1)
   \<and> (rs \<noteq> [] \<longrightarrow> 0 < snd (weigh WEIGHTS rs (0, 0)))
   \<and> (snd (weigh tbl rs (0, 0)) = 0 \<longrightarrow> combined_score (analyze_with tbl rs) = 1 / 2)"
proof (intro conjI impI)
  assume "\<forall>r\<in>set rs. 0 \<le> confidence_score r \<and> confidence_score r \<le> 1"
  then show "0 \<le> combined_score (cross_reference_analyze rs)"
    and "combined_score (cross_reference_analyze rs) \<le> 1"
    using combined_score_unit by blast+
next
  assume "rs \<noteq> []"
  then show "0 < snd (weigh WEIGHTS rs (0, 0))"
    by (rule total_weight_pos)
next
  assume z: "snd (weigh tbl rs (0, 0)) = 0"
  show "combined_score (analyze_with tbl rs) = 1 / 2"
  proof (cases "rs = []")
    case True
    then show ?thesis by (simp add: analyze_with_def)
  next
    case False
    with z show ?thesis by (simp add: combined_score_nonempty)
  qed
qed

text \<open>
  On \<open>sample_panel\<close> the combined score is 0.749, the value of the binary64 computation;
  the exact weighted mean 0.7495 would round to 0.75.
\<close>

theorem combined_score_in_unit_interval_witness:
  "list_all (\<lambda>r. 0 \<le> confidence_score r \<and> confidence_score r \<le> 1) sample_panel
   \<and> combined_score (cross_reference_analyze sample_panel) = 749 / 1000
   \<and> 0 \<le> combined_score (cross_reference_analyze sample_panel)
   \<and> combined_score (cross_reference_analyze sample_panel) \<le> 1
   \<and> 0 < snd (weigh WEIGHTS sample_panel (0, 0))
   \<and> snd (weigh [(''physical'', 0)] [sample_opinion ''physical'' (68 / 100) [''high'']] (0, 0)) = 0
   \<and> combined_score (analyze_with [(''physical'', 0)]
        [sample_opinion ''physical'' (68 / 100) [''high'']]) = 1 / 2"
proof -
  let ?r = "sample_opinion ''physical'' (68 / 100) [''high'']"
  have b: "\<forall>r\<in>set sample_panel. 0 \<le> confidence_score r \<and> confidence_score r \<le> 1"
    by (simp add: sample_panel_def sample_opinion_def)
  then have la: "list_all (\<lambda>r. 0 \<le> confidence_score r \<and> confidence_score r \<le> 1) sample_panel"
    by (simp only: list_all_iff)
  have ne: "sample_panel \<noteq> []" by (simp add: sample_panel_def)
  have z: "snd (weigh [(''physical'', 0)] [?r] (0, 0)) = 0"
    by (simp add: weight_of_def sample_opinion_def Let_def fl64_zero)
  from combined_score_in_unit_interval [of sample_panel WEIGHTS] b ne
  have p: "0 \<le> combined_score (cross_reference_analyze sample_panel)
      \<and> combined_score (cross_reference_analyze sample_panel) \<le> 1
      \<and> 0 < snd (weigh WEIGHTS sample_panel (0, 0))" by blast
  from combined_score_in_unit_interval [of "[?r]" "[(''physical'', 0)]"] z
  have q: "combined_score (analyze_with [(''physical'', 0)] [?r]) = 1 / 2" by blast
  from la sample_panel_score p z q show ?thesis by blast
qed

section \<open>Properties of the critique engine and the orchestrator\<close>

text \<open>
  C7. The threat level computed by the critique engine is the rule of the specification
  applied to the number of high-severity challenges and to the number of challenges plus
  blind spots, and it is monotone in that pair (low below medium below high).
\<close>

theorem threat_level_rule_monotone:
  "calc_threat_level chs bss
     = threat_rule (high_challenge_count chs) (length chs + length bss)
   \<and> (\<forall>h h' t t'. h \<le> h' \<and> t \<le> t'
         \<longrightarrow> threat_rank (threat_rule h t) \<le> threat_rank (threat_rule h' t'))
   \<and> (high_challenge_count chs \<le> high_challenge_count chs'
        \<and> length chs + length bss \<le> length chs' + length bss'
       \<longrightarrow> threat_rank (calc_threat_level chs bss) \<le> threat_rank (calc_threat_level chs' bss'))"
proof -
  have eq: "\<And>cs bs. calc_threat_level cs bs
      = threat_rule (high_challenge_count cs) (length cs + length bs)"
    by (simp add: calc_threat_level_def threat_rule_def high_challenge_count_def Let_def)
  show ?thesis by (simp only: eq) (simp add: threat_rule_mono)
qed

theorem threat_level_rule_monotone_witness:
  "calc_threat_level [sample_challenge ''grayscale'' ''medium''] [sample_blind_spot] = Low
   \<and> calc_threat_level [sample_challenge ''low_resolution'' ''high'',
                         sample_challenge ''grayscale'' ''medium''] [sample_blind_spot] = Medium
   \<and> threat_rank (calc_threat_level [sample_challenge ''grayscale'' ''medium''] [sample_blind_spot])
       \<le> threat_rank (calc_threat_level [sample_challenge ''low_resolution'' ''high'',
                         sample_challenge ''grayscale'' ''medium''] [sample_blind_spot])"
proof -
  let ?a = "[sample_challenge ''grayscale'' ''medium'']"
  let ?b = "[sample_challenge ''low_resolution'' ''high'', sample_challenge ''grayscale'' ''medium'']"
  let ?s = "[sample_blind_spot]"
  have h: "high_challenge_count ?a \<le> high_challenge_count ?b
           \<and> length ?a + length ?s \<le> length ?b + length ?s"
    by (simp add: high_challenge_count_def sample_challenge_def)
  have la: "calc_threat_level ?a ?s = Low"
    by (simp add: calc_threat_level_def sample_challenge_def)
  have lb: "calc_threat_level ?b ?s = Medium"
    by (simp add: calc_threat_level_def sample_challenge_def)
  from threat_level_rule_monotone [of ?a ?s ?b ?s] h
  have "threat_rank (calc_threat_level ?a ?s) \<le> threat_rank (calc_threat_level ?b ?s)"
    by blast
  with la lb show ?thesis by simp
qed

lemma challenge_log:
  "\<exists>entry. snd (challenge learning_log now f rs cr) = learning_log @ [entry]"
  by (simp add: challenge_def Let_def split: prod.splits)

lemma challenge_log_size:
  "learning_log_size (fst (challenge learning_log now f rs cr))
     = length (snd (challenge learning_log now f rs cr))"
  by (simp add: challenge_def Let_def split: prod.splits)

text \<open>
  C10. The critique history is one list for all instances (the class attribute, threaded
  through every call here). A call to \<^verbatim>\<open>challenge\<close> returns the previous log with
  exactly one entry appended at the end: the earlier entries are unchanged, nothing is
  pruned, the reported \<^verbatim>\<open>learning_log_size\<close> is the length of the log after the
  append, and a second call, by whichever instance, appends behind the first.
\<close>

theorem learning_log_append_only:
  "(\<exists>entry. snd (challenge learning_log now f rs cr) = learning_log @ [entry])
   \<and> take (length learning_log) (snd (challenge learning_log now f rs cr)) = learning_log
   \<and> learning_log_size (fst (challenge learning_log now f rs cr))
       = length (snd (challenge learning_log now f rs cr))
   \<and> learning_log_size (fst (challenge learning_log now f rs cr)) = length learning_log + 1
   \<and> (\<exists>e1 e2. snd (challenge (snd (challenge learning_log now f rs cr)) now' f' rs' cr')
         = learning_log @ [e1, e2])"
proof -
  obtain e1 where s1: "snd (challenge learning_log now f rs cr) = learning_log @ [e1]"
    using challenge_log by blast
  obtain e2 where s2: "snd (challenge (learning_log @ [e1]) now' f' rs' cr')
      = (learning_log @ [e1]) @ [e2]"
    using challenge_log by blast
  have sz: "learning_log_size (fst (challenge learning_log now f rs cr))
      = length (snd (challenge learning_log now f rs cr))"
    by (rule challenge_log_size)
  from s1 s2 sz show ?thesis by simp
qed

theorem learning_log_append_only_witness:
  "length (snd (challenge [] ''2026-01-01T00:00:00'' sample_file
             [sample_opinion ''physical'' (68 / 100) [''high'']]
             (cross_reference_analyze [sample_opinion ''physical'' (68 / 100) [''high'']]))) = 1
   \<and> learning_log_size (fst (challenge [] ''2026-01-01T00:00:00'' sample_file
             [sample_opinion ''physical'' (68 / 100) [''high'']]
             (cross_reference_analyze [sample_opinion ''physical'' (68 / 100) [''high'']]))) = 1"
proof -
  let ?rs = "[sample_opinion ''physical'' (68 / 100) [''high'']]"
  from learning_log_append_only
    [of "[]" "''2026-01-01T00:00:00''" sample_file ?rs "cross_reference_analyze ?rs"]
  obtain entry where
    a: "snd (challenge [] ''2026-01-01T00:00:00'' sample_file ?rs (cross_reference_analyze ?rs))
         = [] @ [entry]"
    and b: "learning_log_size (fst (challenge [] ''2026-01-01T00:00:00'' sample_file ?rs
               (cross_reference_analyze ?rs)))
         = length (snd (challenge [] ''2026-01-01T00:00:00'' sample_file ?rs
               (cross_reference_analyze ?rs)))"
    by blast
  from a b show ?thesis by simp
qed

lemma fp_adjustment_cases:
  "snd (check_false_positives rs f) = None \<or> snd (check_false_positives rs f) = Some (5 / 100)"
  by (simp add: check_false_positives_def Let_def split: option.splits prod.splits)

lemma cons_adjustment_cases:
  "snd (check_cross_consistency rs) = None
   \<or> snd (check_cross_consistency rs) = Some (- (3 / 100))"
  by (simp add: check_cross_consistency_def Let_def split: list.splits prod.splits)

lemma challenge_adjustment:
  "confidence_adjustment (fst (challenge learning_log now f rs cr)) =
     py_round
       (let cas = proposed (snd (check_false_positives rs f))
                  @ proposed (snd (check_cross_consistency rs))
        in if cas \<noteq> [] then sum_list cas / of_nat (length cas) else 0) 3"
  by (simp add: challenge_def Let_def split: prod.splits)

lemma py_round_proposals:
  "py_round 0 3 = 0" "py_round (5 / 100) 3 = 5 / 100" "py_round (- (3 / 100)) 3 = - (3 / 100)"
  "py_round (1 / 20) 3 = 1 / 20" "py_round (1 / 100) 3 = 1 / 100"
  by (simp_all add: py_round_def round_half_even_def)

lemma py_round_clamped:
  assumes "5 / 100 \<le> x" and "x \<le> 99 / 100"
  shows "5 / 100 \<le> py_round x 3 \<and> py_round x 3 \<le> 99 / 100"
proof -
  have lo: "of_int 50 \<le> x * 10 ^ 3" using assms by simp
  have hi: "x * 10 ^ 3 \<le> of_int 990" using assms by simp
  have b: "50 \<le> round_half_even (x * 10 ^ 3) \<and> round_half_even (x * 10 ^ 3) \<le> 990"
    using lo hi by (rule round_half_even_bounds)
  from b have "(of_int 50 :: rat) \<le> of_int (round_half_even (x * 10 ^ 3))"
    by (simp only: of_int_le_iff)
  moreover from b have "(of_int (round_half_even (x * 10 ^ 3)) :: rat) \<le> of_int 990"
    by (simp only: of_int_le_iff)
  ultimately show ?thesis by (simp add: py_round_def)
qed

lemma final_confidence:
  "confidence (orchestrator_final_verdict cr rt)
     = py_round (max (5 / 100) (min (99 / 100) (combined_score cr + confidence_adjustment rt))) 3"
  by (simp add: orchestrator_final_verdict_def Let_def)

text \<open>
  C6. The confidence adjustment returned by \<^verbatim>\<open>challenge\<close> is the arithmetic mean of
  the adjustments proposed by the five challenge modules, taken over the modules that
  proposed one (only the false-positive and the cross-consistency module ever do; a module
  proposing none adds nothing to the sum or the count), and it is 0 when no module proposed
  one. The orchestrator's adjusted score, base score plus adjustment, is clamped into
  [0.05, 0.99], and so is the confidence it returns.
\<close>

theorem adjustment_is_mean_and_score_clamped:
  "confidence_adjustment (fst (challenge learning_log now f rs cr))
     = mean_of_proposed [snd (check_false_positives rs f), None,
                         snd (check_cross_consistency rs), None, None]
   \<and> (snd (check_false_positives rs f) = None \<and> snd (check_cross_consistency rs) = None
        \<longrightarrow> confidence_adjustment (fst (challenge learning_log now f rs cr)) = 0)
   \<and> confidence (orchestrator_final_verdict cr' rt)
       = py_round (max (5 / 100) (min (99 / 100)
            (combined_score cr' + confidence_adjustment rt))) 3
   \<and> 5 / 100 \<le> max (5 / 100) (min (99 / 100) (combined_score cr' + confidence_adjustment rt))
   \<and> max (5 / 100) (min (99 / 100) (combined_score cr' + confidence_adjustment rt)) \<le> 99 / 100
   \<and> 5 / 100 \<le> confidence (orchestrator_final_verdict cr' rt)
   \<and> confidence (orchestrator_final_verdict cr' rt) \<le> 99 / 100"
proof -
  have mean: "confidence_adjustment (fst (challenge learning_log now f rs cr))
     = mean_of_proposed [snd (check_false_positives rs f), None,
                         snd (check_cross_consistency rs), None, None]"
    using fp_adjustment_cases [of rs f] cons_adjustment_cases [of rs]
    by (auto simp add: challenge_adjustment mean_of_proposed_def proposed_def
        List.map_filter_simps py_round_proposals)
  have zero: "snd (check_false_positives rs f) = None \<and> snd (check_cross_consistency rs) = None
        \<longrightarrow> confidence_adjustment (fst (challenge learning_log now f rs cr)) = 0"
    by (simp add: mean mean_of_proposed_def List.map_filter_simps)
  let ?x = "max (5 / 100) (min (99 / 100) (combined_score cr' + confidence_adjustment rt))"
  have cl: "5 / 100 \<le> ?x" "?x \<le> 99 / 100" by (auto simp add: max_def min_def)
  from py_round_clamped [OF cl] final_confidence [of cr' rt] mean zero cl
  show ?thesis by simp
qed

lemma sample_disputed_fp:
  "snd (check_false_positives sample_disputed sample_compressed_file) = Some (5 / 100)"
  by (simp add: check_false_positives_def sample_disputed_def sample_compressed_file_def
      sample_file_def sample_image_def mk_anomaly_def Let_def)

text \<open>
  The consistency check follows the floats: 0.9 and 0.6 are a gap above 0.3, and 0.68 and
  0.43 disagree by more than 0.25, although the decimals differ by exactly 0.3 and 0.25.
\<close>

lemma consistency_gap_of_floats:
  "check_cross_consistency
     [sample_opinion ''physical'' (9 / 10) [], sample_opinion ''ai_generation'' (6 / 10) []]
   = ([\<lparr>ctype = ''consistency_gap'', target_agent = None, target_anomaly = None,
        cseverity = ''high''\<rparr>], Some (- (3 / 100)))"
  by code_simp

lemma cross_disagreement_of_floats:
  "check_cross_consistency
     [sample_opinion ''forensic_technical'' (68 / 100) [],
      sample_opinion ''contextual'' (43 / 100) []]
   = ([\<lparr>ctype = ''cross_disagreement'', target_agent = None, target_anomaly = None,
        cseverity = ''medium''\<rparr>], None)"
  by code_simp

lemma sample_disputed_cons:
  "snd (check_cross_consistency sample_disputed) = Some (- (3 / 100))"
  by code_simp

theorem adjustment_is_mean_and_score_clamped_witness:
  "snd (check_false_positives sample_disputed sample_compressed_file) = Some (5 / 100)
   \<and> snd (check_cross_consistency sample_disputed) = Some (- (3 / 100))
   \<and> confidence_adjustment (fst (challenge [] ''2026-01-01T00:00:00'' sample_compressed_file
        sample_disputed (cross_reference_analyze sample_disputed))) = 1 / 100
   \<and> 5 / 100 \<le> confidence (orchestrator_final_verdict (cross_reference_analyze sample_disputed)
        (fst (challenge [] ''2026-01-01T00:00:00'' sample_compressed_file
           sample_disputed (cross_reference_analyze sample_disputed))))
   \<and> confidence (orchestrator_final_verdict (cross_reference_analyze sample_disputed)
        (fst (challenge [] ''2026-01-01T00:00:00'' sample_compressed_file
           sample_disputed (cross_reference_analyze sample_disputed)))) \<le> 99 / 100"
  using adjustment_is_mean_and_score_clamped
    [of "[]" "''2026-01-01T00:00:00''" sample_compressed_file sample_disputed
        "cross_reference_analyze sample_disputed" "cross_reference_analyze sample_disputed"
        "fst (challenge [] ''2026-01-01T00:00:00'' sample_compressed_file
           sample_disputed (cross_reference_analyze sample_disputed))"]
  by (simp add: sample_disputed_fp sample_disputed_cons mean_of_proposed_def
      List.map_filter_simps)

lemma challenge_challenges:
  "challenges (fst (challenge learning_log now f rs cr))
     = fst (check_false_positives rs f) @ fst (check_cross_consistency rs)
       @ fst (check_edge_cases f) @ challenge_verdict cr rs"
  by (simp add: challenge_def Let_def split: prod.splits)



lemma high_total_concat:
  "length (concat (map (\<lambda>r. filter (\<lambda>a. severity a = ''high'') (anomalies r)) rs))
     = high_total rs"
  by (simp add: high_total_def length_concat comp_def)

lemma challenge_verdict_authentic:
  assumes "final_verdict cr = Authentic" and "0 < high_total rs"
  shows "has_verdict_challenge (challenge_verdict cr rs)"
  using assms
  by (simp add: challenge_verdict_def high_total_concat has_verdict_challenge_def Let_def)

lemma has_verdict_challenge_append:
  "has_verdict_challenge (xs @ ys) = (has_verdict_challenge xs \<or> has_verdict_challenge ys)"
  by (simp add: has_verdict_challenge_def)

lemma forced_inconclusive:
  assumes "has_verdict_challenge (challenges rt)"
    and "final_verdict cr = Authentic \<or> final_verdict cr = Forged"
  shows "verdict (orchestrator_final_verdict cr rt) = Inconclusive"
    and "hitl_required (orchestrator_final_verdict cr rt)"
proof -
  from assms(1) have ne: "filter (\<lambda>c. ctype c = ''verdict_challenge'') (challenges rt) \<noteq> []"
    by (simp add: has_verdict_challenge_def list_ex_iff filter_empty_conv)
  from ne assms(2) show "verdict (orchestrator_final_verdict cr rt) = Inconclusive"
    by (auto simp add: orchestrator_final_verdict_def Let_def)
  from ne assms(2) show "hitl_required (orchestrator_final_verdict cr rt)"
    by (auto simp add: orchestrator_final_verdict_def Let_def)
qed

text \<open>
  C2. If the critique result holds a challenge of kind \<^verbatim>\<open>verdict_challenge\<close> and the
  preliminary verdict is authentic or forged, the final verdict is inconclusive. In
  particular, when the critique engine is given a preliminary verdict authentic and
  opinions with at least one high-severity anomaly, it emits a verdict challenge, and the
  final verdict is inconclusive with \<^verbatim>\<open>hitl_required\<close> true.
\<close>

theorem verdict_challenge_forces_inconclusive:
  "(has_verdict_challenge (challenges rt)
      \<and> (final_verdict cr = Authentic \<or> final_verdict cr = Forged)
     \<longrightarrow> verdict (orchestrator_final_verdict cr rt) = Inconclusive)
   \<and> (final_verdict cr' = Authentic \<and> 0 < high_total rs
     \<longrightarrow> has_verdict_challenge (challenges (fst (challenge learning_log now f rs cr')))
         \<and> verdict (orchestrator_final_verdict cr'
              (fst (challenge learning_log now f rs cr'))) = Inconclusive
         \<and> hitl_required (orchestrator_final_verdict cr'
              (fst (challenge learning_log now f rs cr'))))"
proof (intro conjI impI)
  assume "has_verdict_challenge (challenges rt)
      \<and> (final_verdict cr = Authentic \<or> final_verdict cr = Forged)"
  then show "verdict (orchestrator_final_verdict cr rt) = Inconclusive"
    using forced_inconclusive(1) by blast
next
  assume a: "final_verdict cr' = Authentic \<and> 0 < high_total rs"
  then have vc: "has_verdict_challenge (challenges (fst (challenge learning_log now f rs cr')))"
    by (simp add: challenge_challenges has_verdict_challenge_append challenge_verdict_authentic)
  from vc show "has_verdict_challenge (challenges (fst (challenge learning_log now f rs cr')))" .
  from vc a show "verdict (orchestrator_final_verdict cr'
              (fst (challenge learning_log now f rs cr'))) = Inconclusive"
    using forced_inconclusive(1) by blast
  from vc a show "hitl_required (orchestrator_final_verdict cr'
              (fst (challenge learning_log now f rs cr')))"
    using forced_inconclusive(2) by blast
qed

theorem verdict_challenge_forces_inconclusive_witness:
  "final_verdict sample_authentic = Authentic
   \<and> 0 < high_total sample_disputed
   \<and> has_verdict_challenge (challenges (fst (challenge [] ''2026-01-01T00:00:00''
         sample_file sample_disputed sample_authentic)))
   \<and> verdict (orchestrator_final_verdict sample_authentic
         (fst (challenge [] ''2026-01-01T00:00:00'' sample_file sample_disputed
            sample_authentic))) = Inconclusive
   \<and> hitl_required (orchestrator_final_verdict sample_authentic
         (fst (challenge [] ''2026-01-01T00:00:00'' sample_file sample_disputed
            sample_authentic)))"
proof -
  have a: "final_verdict sample_authentic = Authentic" by (simp add: sample_authentic_def)
  have h: "0 < high_total sample_disputed"
    by (simp add: high_total_def sample_disputed_def mk_anomaly_def)
  from verdict_challenge_forces_inconclusive
    [of _ _ sample_authentic sample_disputed "[]" "''2026-01-01T00:00:00''" sample_file] a h
  show ?thesis by blast
qed

text \<open>
  The aggregator itself calls a run authentic only when no opinion has a high-severity
  anomaly, so inside the pipeline the first verdict challenge cannot fire; it guards the
  critique engine against other callers.
\<close>

lemma aggregator_authentic_no_high:
  assumes "final_verdict (cross_reference_analyze rs) = Authentic"
  shows "high_total rs = 0"
proof (cases "rs = []")
  case True
  then show ?thesis by (simp add: high_total_def)
next
  case False
  with assms show ?thesis
    by (simp add: cross_reference_analyze_def final_verdict_nonempty high_total_count Let_def
        split: if_splits)
qed
















section \<open>Properties of the signal analyzer\<close>

lemma penalty_spec: "penalty a = spec_penalty (severity a)"
  by (simp add: penalty_def severity_scores_def spec_penalty_def)

lemma penalty_hundredths: "\<exists>k. penalty a = of_int k / 100"
proof -
  have "penalty a = of_int 15 / 100 \<or> penalty a = of_int 8 / 100
      \<or> penalty a = of_int 3 / 100 \<or> penalty a = of_int 0 / 100"
    by (simp add: penalty_spec spec_penalty_def)
  then show ?thesis by blast
qed

lemma total_penalty_hundredths: "\<exists>k. sum_list (map penalty as) = of_int k / 100"
proof (induction as)
  case Nil
  have "sum_list (map penalty []) = of_int 0 / 100" by simp
  then show ?case by blast
next
  case (Cons a as)
  from Cons obtain k where k: "sum_list (map penalty as) = of_int k / 100" by blast
  obtain j where j: "penalty a = of_int j / 100" using penalty_hundredths by blast
  have "sum_list (map penalty (a # as)) = of_int (j + k) / 100"
    by (simp add: j k add_divide_distrib)
  then show ?case by blast
qed

lemma py_round_hundredths: "py_round (of_int n / 100) 2 = of_int n / 100"
proof -
  have "(of_int n / 100 :: rat) * 10 ^ 2 = of_int n" by simp
  then have "round_half_even ((of_int n / 100 :: rat) * 10 ^ 2) = n"
    by (simp only: round_half_even_of_int)
  then show ?thesis by (simp add: py_round_def)
qed

lemma confidence_unrounded:
  "py_round (92 / 100 - sum_list (map penalty as)) 2 = 92 / 100 - sum_list (map penalty as)"
proof -
  obtain k where k: "sum_list (map penalty as) = of_int k / 100"
    using total_penalty_hundredths by blast
  have e: "92 / 100 - sum_list (map penalty as) = of_int (92 - k) / 100"
    using k by (simp add: diff_divide_distrib)
  show ?thesis by (simp only: e py_round_hundredths)
qed

lemma calculate_confidence_law:
  "calculate_confidence as =
     (if as = [] then 92 / 100
      else max (15 / 100) (92 / 100 - (\<Sum>a\<leftarrow>as. spec_penalty (severity a))))"
proof -
  have "penalty = (\<lambda>a. spec_penalty (severity a))"
    by (rule ext) (rule penalty_spec)
  then have m: "sum_list (map penalty as) = (\<Sum>a\<leftarrow>as. spec_penalty (severity a))"
    by (rule arg_cong)
  have "calculate_confidence as =
     (if as = [] then 92 / 100 else max (15 / 100) (92 / 100 - sum_list (map penalty as)))"
    by (simp only: calculate_confidence_def Let_def confidence_unrounded)
  then show ?thesis by (simp only: m)
qed

lemma forensic_analyze_decoded:
  assumes "opened f = Some img" and "analyze_exif img = Inr (ea, ef)"
  shows "forensic_analyze f =
     Inr (mk_result
       (calculate_confidence (ea @ fst (analyze_ela img)
          @ fst (analyze_compression (file_len f) img) @ fst (analyze_dimensions img)))
       [(''exif'', FObj ef), (''ela'', FObj (snd (analyze_ela img))),
        (''compression'', FObj (snd (analyze_compression (file_len f) img))),
        (''dimensions'', FObj (snd (analyze_dimensions img)))]
       (ea @ fst (analyze_ela img)
          @ fst (analyze_compression (file_len f) img) @ fst (analyze_dimensions img)))"
  using assms by (simp add: forensic_analyze_def Let_def case_prod_beta)

lemma forensic_analyze_undecodable:
  assumes "opened f = None"
  shows "forensic_analyze f = Inr (mk_result (1 / 2) [] [mk_anomaly ''format'' ''medium''])"
  using assms by (simp add: forensic_analyze_def)

lemma forensic_analyze_exif_raises:
  assumes "opened f = Some img" and "getexif img = Raises"
  shows "forensic_analyze f = Inl PILError"
  using assms by (simp add: forensic_analyze_def analyze_exif_def)

lemma double_compression_found:
  assumes "img_format img = Some ''JPEG''" and "0 < q_tables img" and "q_std img = Some s"
    and "25 < s" and "0 < img_width img * img_height img"
    and "1 / 10 \<le> (of_nat n :: rat) / of_nat (img_width img * img_height img)"
  shows "fst (analyze_compression n img) = [mk_anomaly double_compression_tag ''medium'']"
  using assms by (simp add: analyze_compression_def Let_def case_prod_beta not_less)

lemma ai_dimension_found:
  assumes "img_width img = 1024" and "img_height img = 1024"
  shows "fst (analyze_dimensions img) = [mk_anomaly dimensions_tag ''medium'']"
  using assms by (simp add: analyze_dimensions_def ai_dimensions_def)

lemma two_medium_confidence:
  "calculate_confidence [mk_anomaly t1 ''medium'', mk_anomaly t2 ''medium''] = 76 / 100"
  by (simp add: calculate_confidence_law spec_penalty_def mk_anomaly_def)

text \<open>
  C4. The confidence of the signal analyzer is 0.92 for an empty anomaly list and
  otherwise 0.92 minus the sum of the penalties (0.15 high, 0.08 medium, 0.03 low, nothing
  for any other severity), floored at 0.15; rounding to two decimals changes nothing, since
  every penalty is a multiple of 0.01. An image of 1024 by 1024 pixels whose quantization
  table has standard deviation 30, and whose other checks are silent, gets exactly the
  double-compression and the dimension anomaly, both medium, and the confidence 0.76.
\<close>

theorem signal_confidence_law:
  "calculate_confidence [] = 92 / 100
   \<and> (as \<noteq> [] \<longrightarrow>
        calculate_confidence as
          = max (15 / 100) (92 / 100 - (\<Sum>a\<leftarrow>as. spec_penalty (severity a))))
   \<and> (opened f = Some img \<and> img_width img = 1024 \<and> img_height img = 1024
        \<and> img_format img = Some ''JPEG'' \<and> 0 < q_tables img \<and> q_std img = Some 30
        \<and> analyze_exif img = Inr ([], ef) \<and> fst (analyze_ela img) = []
        \<and> 1 / 10 \<le> (of_nat (file_len f) :: rat) / of_nat (1024 * 1024)
       \<longrightarrow> (\<exists>fs. forensic_analyze f =
              Inr (mk_result (76 / 100) fs
                     [mk_anomaly double_compression_tag ''medium'',
                      mk_anomaly dimensions_tag ''medium''])))"
proof (intro conjI impI)
  show "calculate_confidence [] = 92 / 100" by (simp add: calculate_confidence_law)
next
  assume "as \<noteq> []"
  then show "calculate_confidence as
      = max (15 / 100) (92 / 100 - (\<Sum>a\<leftarrow>as. spec_penalty (severity a)))"
    by (simp add: calculate_confidence_law)
next
  assume a: "opened f = Some img \<and> img_width img = 1024 \<and> img_height img = 1024
        \<and> img_format img = Some ''JPEG'' \<and> 0 < q_tables img \<and> q_std img = Some 30
        \<and> analyze_exif img = Inr ([], ef) \<and> fst (analyze_ela img) = []
        \<and> 1 / 10 \<le> (of_nat (file_len f) :: rat) / of_nat (1024 * 1024)"
  then have c: "fst (analyze_compression (file_len f) img)
      = [mk_anomaly double_compression_tag ''medium'']"
    by (intro double_compression_found [where s = 30]) simp_all
  from a have d: "fst (analyze_dimensions img) = [mk_anomaly dimensions_tag ''medium'']"
    by (intro ai_dimension_found) simp_all
  from a have "forensic_analyze f =
     Inr (mk_result
       (calculate_confidence ([] @ fst (analyze_ela img)
          @ fst (analyze_compression (file_len f) img) @ fst (analyze_dimensions img)))
       [(''exif'', FObj ef), (''ela'', FObj (snd (analyze_ela img))),
        (''compression'', FObj (snd (analyze_compression (file_len f) img))),
        (''dimensions'', FObj (snd (analyze_dimensions img)))]
       ([] @ fst (analyze_ela img)
          @ fst (analyze_compression (file_len f) img) @ fst (analyze_dimensions img)))"
    by (intro forensic_analyze_decoded) simp_all
  with a c d have "forensic_analyze f =
     Inr (mk_result (76 / 100)
       [(''exif'', FObj ef), (''ela'', FObj (snd (analyze_ela img))),
        (''compression'', FObj (snd (analyze_compression (file_len f) img))),
        (''dimensions'', FObj (snd (analyze_dimensions img)))]
       [mk_anomaly double_compression_tag ''medium'', mk_anomaly dimensions_tag ''medium''])"
    by (simp add: two_medium_confidence)
  then show "\<exists>fs. forensic_analyze f =
              Inr (mk_result (76 / 100) fs
                     [mk_anomaly double_compression_tag ''medium'',
                      mk_anomaly dimensions_tag ''medium''])"
    by blast
qed

theorem signal_confidence_law_witness:
  "opened sample_ai_sized_file = Some sample_ai_sized_image
   \<and> img_width sample_ai_sized_image = 1024 \<and> img_height sample_ai_sized_image = 1024
   \<and> q_std sample_ai_sized_image = Some 30
   \<and> (\<exists>fs. forensic_analyze sample_ai_sized_file =
              Inr (mk_result (76 / 100) fs
                     [mk_anomaly double_compression_tag ''medium'',
                      mk_anomaly dimensions_tag ''medium'']))
   \<and> calculate_confidence [mk_anomaly ''ELA'' ''high'', mk_anomaly compression_tag ''low'']
       = 74 / 100"
proof -
  have a: "opened sample_ai_sized_file = Some sample_ai_sized_image
      \<and> img_width sample_ai_sized_image = 1024 \<and> img_height sample_ai_sized_image = 1024
      \<and> img_format sample_ai_sized_image = Some ''JPEG'' \<and> 0 < q_tables sample_ai_sized_image
      \<and> q_std sample_ai_sized_image = Some 30
      \<and> analyze_exif sample_ai_sized_image
          = Inr ([], [(''has_exif'', FBool True), (''exif_tags_count'', FNum 1)])
      \<and> fst (analyze_ela sample_ai_sized_image) = []
      \<and> 1 / 10 \<le> (of_nat (file_len sample_ai_sized_file) :: rat) / of_nat (1024 * 1024)"
    by (simp add: sample_ai_sized_file_def sample_ai_sized_image_def analyze_exif_def
        analyze_ela_def exif_get_def Let_def)
  have n: "[mk_anomaly ''ELA'' ''high'', mk_anomaly compression_tag ''low''] \<noteq> []" by simp
  from signal_confidence_law
    [of "[mk_anomaly ''ELA'' ''high'', mk_anomaly compression_tag ''low'']"
        sample_ai_sized_file sample_ai_sized_image
        "[(''has_exif'', FBool True), (''exif_tags_count'', FNum 1)]"] a n
  have "(\<exists>fs. forensic_analyze sample_ai_sized_file =
              Inr (mk_result (76 / 100) fs
                     [mk_anomaly double_compression_tag ''medium'',
                      mk_anomaly dimensions_tag ''medium'']))
     \<and> calculate_confidence [mk_anomaly ''ELA'' ''high'', mk_anomaly compression_tag ''low'']
       = max (15 / 100) (92 / 100 - (\<Sum>a\<leftarrow>[mk_anomaly ''ELA'' ''high'',
            mk_anomaly compression_tag ''low'']. spec_penalty (severity a)))"
    by blast
  with a show ?thesis by (simp add: spec_penalty_def mk_anomaly_def)
qed

text \<open>
  C5. \<^verbatim>\<open>analyze\<close> guards \<^verbatim>\<open>Image.open\<close> and the resave analysis with
  \<^verbatim>\<open>try\<close>, but not the EXIF read. On a file that opens and whose EXIF read raises (a
  truncated PNG, a JPEG with a malformed EXIF block) the exception leaves \<^verbatim>\<open>analyze\<close>.
  An undecodable file does give the degraded record: confidence 0.5 and one medium
  anomaly of type "format".
\<close>

theorem exif_read_failure_escapes:
  "forensic_analyze sample_truncated_png = Inl PILError
   \<and> forensic_analyze sample_undecodable_file
       = Inr (mk_result (1 / 2) [] [mk_anomaly ''format'' ''medium''])"
  by (simp add: forensic_analyze_exif_raises forensic_analyze_undecodable
      sample_truncated_png_def sample_undecodable_file_def)

text \<open>
  \<^verbatim>\<open>analyze\<close> returns an opinion exactly when the file does not open or its EXIF
  read succeeds.
\<close>

lemma forensic_analyze_returns_iff:
  "(\<exists>r. forensic_analyze f = Inr r)
     = (case opened f of None \<Rightarrow> True | Some img \<Rightarrow> getexif img \<noteq> Raises)"
  by (simp add: forensic_analyze_def analyze_exif_def Let_def case_prod_beta
      split: option.splits reading.splits)

end
